theory Spec2Isabelle
  imports Complex_Main "HOL-Library.List_Lexorder" "HOL-Library.Char_ord" "HOL-Library.Log_Nat"
begin

section \<open>Residual load scenarios: data model\<close>

text \<open>
  The engine (engine.py) and the forecast store client (metdesk_db.py) work on pandas
  tables of double precision numbers. A table cell is a finite real number or not-a-number
  (\<open>None\<close>). Sums, differences and means are kept exact; the normalised percentage of
  the residual delta, whose value is a matter of the last bit, is rounded to binary64 as
  the code rounds it. Overflow of the doubles is outside the model. A timestamp is a UTC
  instant, an integer.
\<close>

type_synonym cell = "real option"

text \<open>The result of a true division, which can leave the finite numbers.\<close>

datatype xcell = Fin real | PosInf | NegInf | NotANumber

type_synonym frow = "int \<times> (string \<times> cell) list"

text \<open>
  A DataFrame: the column labels in order (the timestamp column \<open>utc_datetime\<close> among
  them when the table has one) and the rows, each the timestamp and the value cells by
  column label.
\<close>

record frame =
  columns :: "string list"
  rows :: "frow list"

datatype error = KeyError | ValueError | AttributeError

text \<open>What the store answers to one SQL statement: the rows, or a failure to run it.\<close>

datatype 'a qres = QError | QRows 'a

type_synonym long_row = "int \<times> string \<times> cell"

text \<open>
  The external PostgreSQL store, taken as a parameter: each field is the answer to one
  SQL statement of metdesk_db.py for the given bind parameters.
  \<open>max_issue location model element\<close> is \<open>SELECT MAX(issue)\<close>;
  \<open>ensemble_rows location model element issue members\<close> the member query of
  get_ensemble_forecasts; \<open>issue_time_rows location model element issue valid_start valid_end\<close>
  the query of get_ensemble_by_issue_and_time; \<open>consumption_rows location\<close> the
  query of get_eq_consumption with its COALESCE column.
\<close>

record database =
  max_issue :: "string \<Rightarrow> string \<Rightarrow> string \<Rightarrow> int option qres"
  ensemble_rows :: "string \<Rightarrow> string \<Rightarrow> string \<Rightarrow> int \<Rightarrow> string list \<Rightarrow> long_row list qres"
  issue_time_rows :: "string \<Rightarrow> string \<Rightarrow> string \<Rightarrow> int \<Rightarrow> int \<Rightarrow> int \<Rightarrow> long_row list qres"
  consumption_rows :: "string \<Rightarrow> (int \<times> cell) list qres"

section \<open>Arithmetic on cells\<close>

fun fadd :: "cell \<Rightarrow> cell \<Rightarrow> cell" where
  "fadd (Some x) (Some y) = Some (x + y)"
| "fadd _ _ = None"

fun fsub :: "cell \<Rightarrow> cell \<Rightarrow> cell" where
  "fsub (Some x) (Some y) = Some (x - y)"
| "fsub _ _ = None"

fun fneg :: "cell \<Rightarrow> cell" where
  "fneg (Some x) = Some (- x)"
| "fneg None = None"

text \<open>
  Rounding to the nearest binary64 number, ties to even: the exponent of a positive number
  (the integer part of its binary logarithm), at least that of the smallest normal number,
  fixes the spacing of the doubles around it, and the number is rounded to a multiple of
  that spacing.
\<close>

definition expo :: "real \<Rightarrow> int" where
  "expo x =
     (if 1 \<le> x then int (floorlog 2 (nat \<lfloor>x\<rfloor>)) - 1
      else - int (floorlog 2 (nat \<lceil>1 / x\<rceil> - 1)))"

definition rne :: "real \<Rightarrow> int" where
  "rne m =
     (let f = \<lfloor>m\<rfloor>; d = m - of_int f
      in if d < 1 / 2 then f
         else if 1 / 2 < d then f + 1
         else if even f then f else f + 1)"

definition round_f64 :: "real \<Rightarrow> real" where
  "round_f64 x =
     (if x = 0 then 0
      else let q = 2 powi (max (expo \<bar>x\<bar>) (- 1022) - 52)
           in sgn x * of_int (rne (\<bar>x\<bar> / q)) * q)"

text \<open>
  Division and multiplication of a float64 column by a constant: each result is rounded.
\<close>

fun f64_div :: "cell \<Rightarrow> real \<Rightarrow> cell" where
  "f64_div (Some x) k = Some (round_f64 (x / k))"
| "f64_div None k = None"

fun f64_mul :: "cell \<Rightarrow> real \<Rightarrow> cell" where
  "f64_mul (Some x) k = Some (round_f64 (x * k))"
| "f64_mul None k = None"

text \<open>
  True division of two columns: numpy raises nothing on a zero denominator, the quotient
  is an infinity, or not-a-number for 0/0.
\<close>

fun fdiv :: "cell \<Rightarrow> cell \<Rightarrow> xcell" where
  "fdiv (Some x) (Some y) =
     (if y \<noteq> 0 then Fin (x / y)
      else if 0 < x then PosInf
      else if x < 0 then NegInf
      else NotANumber)"
| "fdiv _ _ = NotANumber"

fun xmul :: "xcell \<Rightarrow> real \<Rightarrow> xcell" where
  "xmul (Fin v) k = Fin (v * k)"
| "xmul PosInf k = (if 0 < k then PosInf else if k < 0 then NegInf else NotANumber)"
| "xmul NegInf k = (if 0 < k then NegInf else if k < 0 then PosInf else NotANumber)"
| "xmul NotANumber k = NotANumber"

text \<open>The comparison \<open>\<le>\<close> of two cells: false as soon as one side is not-a-number.\<close>

fun fle :: "cell \<Rightarrow> cell \<Rightarrow> bool" where
  "fle (Some x) (Some y) = (x \<le> y)"
| "fle _ _ = False"

fun fillna0 :: "cell \<Rightarrow> cell" where
  "fillna0 None = Some 0"
| "fillna0 (Some x) = Some x"

section \<open>Reductions across the member dimension\<close>

fun nonnan :: "cell list \<Rightarrow> real list" where
  "nonnan [] = []"
| "nonnan (None # vs) = nonnan vs"
| "nonnan (Some x # vs) = x # nonnan vs"

definition nanmean :: "cell list \<Rightarrow> cell" where
  "nanmean vs =
     (let xs = nonnan vs
      in if xs = [] then None else Some (sum_list xs / real (length xs)))"

definition nanstd :: "cell list \<Rightarrow> cell" where
  "nanstd vs =
     (let xs = nonnan vs
      in if xs = [] then None
         else let m = sum_list xs / real (length xs)
              in Some (sqrt (sum_list (map (\<lambda>x. (x - m)\<^sup>2) xs) / real (length xs))))"

declare nanstd_def [code del]

definition nanmin :: "cell list \<Rightarrow> cell" where
  "nanmin vs = (case nonnan vs of [] \<Rightarrow> None | x # xs \<Rightarrow> Some (fold min xs x))"

definition nanmax :: "cell list \<Rightarrow> cell" where
  "nanmax vs = (case nonnan vs of [] \<Rightarrow> None | x # xs \<Rightarrow> Some (fold max xs x))"

text \<open>
  numpy's percentile with the default linear method on the sorted numbers of the row:
  the virtual index is \<open>(n - 1) * p / 100\<close>, its integer part selects the lower order
  statistic, the next index is clipped to \<open>n - 1\<close>, and the fractional part interpolates.
\<close>

definition percentile_sorted :: "real list \<Rightarrow> nat \<Rightarrow> real" where
  "percentile_sorted xs p =
     (let n = length xs;
          k = (n - 1) * p;
          lo = k div 100;
          hi = min (lo + 1) (n - 1);
          g = real (k mod 100) / 100
      in xs ! lo + g * (xs ! hi - xs ! lo))"

definition nanpercentile :: "cell list \<Rightarrow> nat \<Rightarrow> cell" where
  "nanpercentile vs p =
     (let xs = sort (nonnan vs)
      in if xs = [] then None else Some (percentile_sorted xs p))"

section \<open>Strings\<close>

definition starts_with :: "string \<Rightarrow> string \<Rightarrow> bool" where
  "starts_with p s = (take (length p) s = p)"

definition upper_char :: "char \<Rightarrow> char" where
  "upper_char c =
     (case map_of (zip ''abcdefghijklmnopqrstuvwxyz'' ''ABCDEFGHIJKLMNOPQRSTUVWXYZ'') c of
        Some u \<Rightarrow> u | None \<Rightarrow> c)"

definition lower_char :: "char \<Rightarrow> char" where
  "lower_char c =
     (case map_of (zip ''ABCDEFGHIJKLMNOPQRSTUVWXYZ'' ''abcdefghijklmnopqrstuvwxyz'') c of
        Some u \<Rightarrow> u | None \<Rightarrow> c)"

text \<open>\<open>str.upper\<close> and \<open>str.lower\<close> on the ASCII letters of a country code.\<close>

definition upper :: "string \<Rightarrow> string" where
  "upper s = map upper_char s"

definition lower :: "string \<Rightarrow> string" where
  "lower s = map lower_char s"

definition digit_char :: "nat \<Rightarrow> char" where
  "digit_char d = ''0123456789'' ! d"

text \<open>\<open>str(i)\<close> of a non-negative integer.\<close>

fun str_nat :: "nat \<Rightarrow> string" where
  "str_nat n = (if n < 10 then [digit_char n] else str_nat (n div 10) @ [digit_char (n mod 10)])"

declare str_nat.simps [simp del]

text \<open>The format \<open>{i:02d}\<close>: decimal, padded with zeros to two characters.\<close>

definition fmt02d :: "nat \<Rightarrow> string" where
  "fmt02d i = (let s = str_nat i in replicate (2 - length s) CHR ''0'' @ s)"

definition digit_val :: "char \<Rightarrow> nat option" where
  "digit_val c = map_of (zip ''0123456789'' [0, 1, 2, 3, 4, 5, 6, 7, 8, 9]) c"

text \<open>
  \<open>int(col)\<close> on a member label: the value of a string of decimal digits, \<open>None\<close> for
  the ValueError. (Python also accepts a sign, blanks around the number and underscores
  between digits; the member query only asks for the labels \<open>str(i)\<close>.)
\<close>

fun py_int_acc :: "nat \<Rightarrow> string \<Rightarrow> nat option" where
  "py_int_acc acc [] = Some acc"
| "py_int_acc acc (c # cs) =
     (case digit_val c of None \<Rightarrow> None | Some d \<Rightarrow> py_int_acc (10 * acc + d) cs)"

definition py_int :: "string \<Rightarrow> nat option" where
  "py_int s = (if s = [] then None else py_int_acc 0 s)"

section \<open>pandas operations\<close>

definition DataFrame0 :: frame where
  "DataFrame0 = \<lparr>columns = [], rows = []\<rparr>"

text \<open>\<open>df.empty\<close>: no column or no row.\<close>

definition df_empty :: "frame \<Rightarrow> bool" where
  "df_empty df = (columns df = [] \<or> rows df = [])"

text \<open>The cell of a row under a column label (not-a-number when the row has none).\<close>

definition cell :: "frow \<Rightarrow> string \<Rightarrow> cell" where
  "cell r c = (case map_of (snd r) c of Some v \<Rightarrow> v | None \<Rightarrow> None)"

definition column_values :: "frame \<Rightarrow> string \<Rightarrow> cell list" where
  "column_values df c = map (\<lambda>r. cell r c) (rows df)"

definition timestamps :: "frame \<Rightarrow> int list" where
  "timestamps df = map fst (rows df)"

definition value_columns :: "frame \<Rightarrow> string list" where
  "value_columns df = filter (\<lambda>c. c \<noteq> ''utc_datetime'') (columns df)"

text \<open>\<open>df.rename(columns=f)\<close> on every column but the timestamp.\<close>

definition rename_columns :: "(string \<Rightarrow> string) \<Rightarrow> frame \<Rightarrow> frame" where
  "rename_columns f df =
     \<lparr>columns = map (\<lambda>c. if c = ''utc_datetime'' then c else f c) (columns df),
      rows = map (\<lambda>r. (fst r, map (\<lambda>(c, v). (f c, v)) (snd r))) (rows df)\<rparr>"

text \<open>\<open>df.rename(columns={old: new}, inplace=True)\<close> for one label.\<close>

definition rename_one :: "string \<Rightarrow> string \<Rightarrow> frame \<Rightarrow> frame" where
  "rename_one old new df =
     \<lparr>columns = map (\<lambda>c. if c = old then new else c) (columns df),
      rows = map (\<lambda>r. (fst r, map (\<lambda>(c, v). (if c = old then new else c, v)) (snd r))) (rows df)\<rparr>"

fun upsert :: "string \<Rightarrow> cell \<Rightarrow> (string \<times> cell) list \<Rightarrow> (string \<times> cell) list" where
  "upsert c v [] = [(c, v)]"
| "upsert c v ((c', v') # kvs) = (if c' = c then (c, v) # kvs else (c', v') # upsert c v kvs)"

text \<open>\<open>df[c] = f(row)\<close>: overwrite the column when it exists, append it otherwise.\<close>

definition assign :: "frame \<Rightarrow> string \<Rightarrow> (frow \<Rightarrow> cell) \<Rightarrow> frame" where
  "assign df c f =
     \<lparr>columns = (if c \<in> set (columns df) then columns df else columns df @ [c]),
      rows = map (\<lambda>r. (fst r, upsert c (f r) (snd r))) (rows df)\<rparr>"

text \<open>
  \<open>sort_values("utc_datetime")\<close>. The order pandas gives to rows of equal timestamp is
  not specified; the model keeps their order. Every table sorted here has one row per
  timestamp or is grouped by timestamp right after.
\<close>

definition sort_values :: "frame \<Rightarrow> frame" where
  "sort_values df = df\<lparr>rows := sort_key fst (rows df)\<rparr>"

text \<open>
  The join of two keyed row lists on equal timestamps. The inner join keeps the order of
  the left rows; the outer join orders the union of the keys, and a key present on one
  side only has no partner on the other.
\<close>

definition inner_join :: "(int \<times> 'a) list \<Rightarrow> (int \<times> 'b) list \<Rightarrow> (int \<times> 'a \<times> 'b) list" where
  "inner_join l r =
     concat (map (\<lambda>a. map (\<lambda>b. (fst a, snd a, snd b)) (filter (\<lambda>b. fst b = fst a) r)) l)"

definition outer_group ::
  "int \<Rightarrow> (int \<times> 'a) list \<Rightarrow> (int \<times> 'b) list \<Rightarrow> (int \<times> 'a option \<times> 'b option) list" where
  "outer_group k l r =
     (let ls = filter (\<lambda>a. fst a = k) l; rs = filter (\<lambda>b. fst b = k) r
      in if rs = [] then map (\<lambda>a. (k, Some (snd a), None)) ls
         else if ls = [] then map (\<lambda>b. (k, None, Some (snd b))) rs
         else concat (map (\<lambda>a. map (\<lambda>b. (k, Some (snd a), Some (snd b))) rs) ls))"

definition outer_join ::
  "(int \<times> 'a) list \<Rightarrow> (int \<times> 'b) list \<Rightarrow> (int \<times> 'a option \<times> 'b option) list" where
  "outer_join l r =
     concat (map (\<lambda>k. outer_group k l r) (sort (remdups (map fst l @ map fst r))))"

text \<open>
  \<open>left.merge(right, on="utc_datetime")\<close>: a value column whose label both tables have
  gets the suffixes \<open>_x\<close> and \<open>_y\<close>.
\<close>

definition suffixed :: "string \<Rightarrow> string list \<Rightarrow> string \<Rightarrow> string" where
  "suffixed sfx others c = (if c \<noteq> ''utc_datetime'' \<and> c \<in> set others then c @ sfx else c)"

definition merged_columns :: "frame \<Rightarrow> frame \<Rightarrow> string list" where
  "merged_columns l r =
     map (suffixed ''_x'' (columns r)) (columns l)
     @ map (suffixed ''_y'' (columns l)) (value_columns r)"

definition left_cells :: "frame \<Rightarrow> frame \<Rightarrow> (string \<times> cell) list \<Rightarrow> (string \<times> cell) list" where
  "left_cells l r kvs = map (\<lambda>(c, v). (suffixed ''_x'' (columns r) c, v)) kvs"

definition right_cells :: "frame \<Rightarrow> frame \<Rightarrow> (string \<times> cell) list \<Rightarrow> (string \<times> cell) list" where
  "right_cells l r kvs = map (\<lambda>(c, v). (suffixed ''_y'' (columns l) c, v)) kvs"

definition nan_cells :: "frame \<Rightarrow> (string \<times> cell) list" where
  "nan_cells df = map (\<lambda>c. (c, None)) (value_columns df)"

definition merge_inner :: "frame \<Rightarrow> frame \<Rightarrow> frame" where
  "merge_inner l r =
     \<lparr>columns = merged_columns l r,
      rows = map (\<lambda>(k, a, b). (k, left_cells l r a @ right_cells l r b))
               (inner_join (rows l) (rows r))\<rparr>"

definition merge_outer :: "frame \<Rightarrow> frame \<Rightarrow> frame" where
  "merge_outer l r =
     \<lparr>columns = merged_columns l r,
      rows = map (\<lambda>(k, a, b).
                 (k, left_cells l r (case a of Some kvs \<Rightarrow> kvs | None \<Rightarrow> nan_cells l)
                     @ right_cells l r (case b of Some kvs \<Rightarrow> kvs | None \<Rightarrow> nan_cells r)))
               (outer_join (rows l) (rows r))\<rparr>"

definition fillna_zero :: "frame \<Rightarrow> frame" where
  "fillna_zero df = df\<lparr>rows := map (\<lambda>r. (fst r, map (\<lambda>(c, v). (c, fillna0 v)) (snd r))) (rows df)\<rparr>"

text \<open>
  \<open>pivot_table(index="utc_datetime", columns="member", values="value", aggfunc="first")\<close>
  followed by \<open>reset_index()\<close>: a (timestamp, member) pair keeps its first value that is
  a number and is dropped when it has none; the timestamps and the member labels that
  remain are sorted; a cell without a pair is not-a-number. \<open>reset_index\<close> raises
  ValueError when a member label is the name of the index.
\<close>

definition first_valid :: "long_row list \<Rightarrow> int \<Rightarrow> string \<Rightarrow> cell" where
  "first_valid lr t m =
     (case filter (\<lambda>(t', m', v). t' = t \<and> m' = m \<and> v \<noteq> None) lr of
        [] \<Rightarrow> None
      | (_, _, v) # _ \<Rightarrow> v)"

definition pivot_table :: "long_row list \<Rightarrow> error + frame" where
  "pivot_table lr =
     (let kept = filter (\<lambda>(t, m, v). v \<noteq> None) lr;
          idx = sort (remdups (map fst kept));
          mem = sort (remdups (map (\<lambda>(t, m, v). m) kept))
      in if ''utc_datetime'' \<in> set mem then Inl ValueError
         else Inr \<lparr>columns = ''utc_datetime'' # mem,
                   rows = map (\<lambda>t. (t, map (\<lambda>m. (m, first_valid lr t m)) mem)) idx\<rparr>)"

section \<open>Configuration (config.py)\<close>

record model_config =
  label :: string
  description :: string
  n_members :: nat

definition COUNTRY :: string where
  "COUNTRY = ''FR''"

definition AVAILABLE_MODELS :: "string \<Rightarrow> model_config option" where
  "AVAILABLE_MODELS =
     map_of
       [(''eceps'', \<lparr>label = ''ECMWF ENS (eceps)'',
                    description = ''ECMWF Ensemble - 50 members, 15-day horizon'',
                    n_members = 50\<rparr>),
        (''ec46'', \<lparr>label = ''ECMWF Extended (ec46)'',
                   description = ''ECMWF Extended Range - 99 members, 46-day horizon'',
                   n_members = 99\<rparr>),
        (''gfsens'', \<lparr>label = ''GFS Ensemble (gfsens)'',
                     description = ''NCEP GFS Ensemble - 30 members, 16-day horizon'',
                     n_members = 30\<rparr>),
        (''ecaifsens'', \<lparr>label = ''ECMWF AIFS ENS (ecaifsens)'',
                        description = ''ECMWF AI-based Ensemble - 50 members, 15-day horizon'',
                        n_members = 50\<rparr>)]"

section \<open>Forecast store client (metdesk_db.py)\<close>

definition or_country :: "string option \<Rightarrow> string" where
  "or_country location = (case location of None \<Rightarrow> COUNTRY | Some l \<Rightarrow> l)"

text \<open>\<open>_get_latest_issue\<close>: the maximum issue, \<open>None\<close> without rows or on a query error.\<close>

definition get_latest_issue :: "database \<Rightarrow> string \<Rightarrow> string \<Rightarrow> string option \<Rightarrow> int option" where
  "get_latest_issue db model element location =
     (case max_issue db (or_country location) model element of
        QError \<Rightarrow> None
      | QRows r \<Rightarrow> r)"

definition ens_label :: "string \<Rightarrow> string" where
  "ens_label col =
     (case py_int col of Some i \<Rightarrow> ''ens_'' @ fmt02d i | None \<Rightarrow> ''ens_'' @ col)"

text \<open>
  \<open>get_ensemble_forecasts\<close>. The latest issue is looked up without the location, hence
  for the configured country. The lookup of the member count raises KeyError for a model
  that is not configured, and the pivot is outside the guarded query; a failure of the
  query gives the empty DataFrame.
\<close>

definition get_ensemble_forecasts ::
  "database \<Rightarrow> string \<Rightarrow> string \<Rightarrow> int option \<Rightarrow> string option \<Rightarrow> error + frame" where
  "get_ensemble_forecasts db model element issue location =
     (let location = or_country location
      in case (case issue of None \<Rightarrow> get_latest_issue db model element None | Some i \<Rightarrow> Some i) of
           None \<Rightarrow> Inr DataFrame0
         | Some issue \<Rightarrow>
             (case AVAILABLE_MODELS model of
                None \<Rightarrow> Inl KeyError
              | Some cfg \<Rightarrow>
                  (let numeric_members = map str_nat [1..<n_members cfg + 1]
                   in case ensemble_rows db location model element issue numeric_members of
                        QError \<Rightarrow> Inr DataFrame0
                      | QRows df \<Rightarrow>
                          if df = [] then Inr DataFrame0
                          else
                            (case pivot_table df of
                               Inl e \<Rightarrow> Inl e
                             | Inr pivot \<Rightarrow>
                                 Inr (sort_values (rename_columns ens_label pivot))))))"

definition wind_col :: "nat \<Rightarrow> string" where
  "wind_col i = ''wind_ens_'' @ fmt02d i"

definition solar_col :: "nat \<Rightarrow> string" where
  "solar_col i = ''solar_ens_'' @ fmt02d i"

definition ren_col :: "nat \<Rightarrow> string" where
  "ren_col i = ''total_ren_ens_'' @ fmt02d i"

text \<open>
  The loop that sums wind and solar per member. A total column never carries a wind or
  solar label, so the members that get a total are those whose two columns are in the
  merged table.
\<close>

definition add_totals :: "nat \<Rightarrow> frame \<Rightarrow> frame" where
  "add_totals n df =
     foldl (\<lambda>d i. if wind_col i \<in> set (columns d) \<and> solar_col i \<in> set (columns d)
                   then assign d (ren_col i) (\<lambda>r. fadd (cell r (wind_col i)) (cell r (solar_col i)))
                   else d)
           df [1..<n + 1]"

definition get_renewable_ensembles ::
  "database \<Rightarrow> string \<Rightarrow> int option \<Rightarrow> string option \<Rightarrow> error + frame" where
  "get_renewable_ensembles db model issue location =
     (case get_ensemble_forecasts db model ''wind'' issue location of
        Inl e \<Rightarrow> Inl e
      | Inr wind \<Rightarrow>
     (case get_ensemble_forecasts db model ''solar'' issue location of
        Inl e \<Rightarrow> Inl e
      | Inr solar \<Rightarrow>
          if df_empty wind \<and> df_empty solar then Inr DataFrame0
          else
            (let wind_renamed =
                   (if \<not> df_empty wind then rename_columns (\<lambda>c. ''wind_'' @ c) wind
                    else DataFrame0);
                 solar_renamed =
                   (if \<not> df_empty solar then rename_columns (\<lambda>c. ''solar_'' @ c) solar
                    else DataFrame0)
             in if df_empty wind_renamed then Inr solar_renamed
                else if df_empty solar_renamed then Inr wind_renamed
                else
                  (let df = fillna_zero (merge_outer wind_renamed solar_renamed)
                   in case AVAILABLE_MODELS model of
                        None \<Rightarrow> Inl KeyError
                      | Some cfg \<Rightarrow> Inr (add_totals (n_members cfg) df)))))"

text \<open>
  \<open>get_ensemble_by_issue_and_time\<close>: every member of the issue in the valid-time
  window, each label prefixed in turn, and the mean across the \<open>ens_\<close> columns that
  skips not-a-number. The whole body is guarded, so nothing is raised.
\<close>

definition get_ensemble_by_issue_and_time ::
  "database \<Rightarrow> string \<Rightarrow> string \<Rightarrow> int \<Rightarrow> int \<Rightarrow> int \<Rightarrow> string option \<Rightarrow> frame" where
  "get_ensemble_by_issue_and_time db model element issue valid_start valid_end location =
     (case issue_time_rows db (or_country location) model element issue valid_start valid_end of
        QError \<Rightarrow> DataFrame0
      | QRows df \<Rightarrow>
          if df = [] then DataFrame0
          else
            (case pivot_table df of
               Inl e \<Rightarrow> DataFrame0
             | Inr pivot0 \<Rightarrow>
                 (let member_cols = value_columns pivot0;
                      pivot = foldl (\<lambda>d col. rename_one col (''ens_'' @ col) d) pivot0 member_cols;
                      ens_cols = filter (starts_with ''ens_'') (columns pivot)
                  in if ens_cols \<noteq> []
                     then assign pivot ''ens_mean'' (\<lambda>r. nanmean (map (cell r) ens_cols))
                     else pivot)))"

text \<open>
  \<open>get_eq_consumption\<close>: the empty answer and every error give an empty table that
  still has its two columns.
\<close>

definition get_eq_consumption :: "database \<Rightarrow> int option \<Rightarrow> string option \<Rightarrow> frame" where
  "get_eq_consumption db issue location =
     (let location = (case location of None \<Rightarrow> ''fr'' | Some l \<Rightarrow> l)
      in case consumption_rows db location of
           QError \<Rightarrow> \<lparr>columns = [''utc_datetime'', ''consumption_mw''], rows = []\<rparr>
         | QRows df \<Rightarrow>
             if df = [] then \<lparr>columns = [''utc_datetime'', ''consumption_mw''], rows = []\<rparr>
             else sort_values
                    \<lparr>columns = [''utc_datetime'', ''consumption_mw''],
                     rows = map (\<lambda>(t, v). (t, [(''consumption_mw'', v)])) df\<rparr>)"

section \<open>Scenario engine (engine.py)\<close>

record metadata =
  md_model :: string
  md_model_label :: string
  md_issue :: "int option"
  md_updated_at :: int
  md_n_members :: nat
  md_countries :: "string list"

text \<open>The scenario bundle: the empty dict, or the three tables and the metadata record.\<close>

datatype scenario_bundle =
  EmptyBundle
| Bundle (b_residual_scenarios: frame) (b_consumption: frame) (b_renewables_ens: frame)
    (b_metadata: metadata)

record engine =
  last_update :: "int option"
  current_model :: "string option"
  scenarios :: scenario_bundle

definition res_col :: "nat \<Rightarrow> string" where
  "res_col i = ''residual_ens_'' @ fmt02d i"

definition pct_col :: "nat \<Rightarrow> string" where
  "pct_col p = ''ens_P'' @ str_nat p"

text \<open>\<open>range(0, 101, 5)\<close>.\<close>

definition percentile_levels :: "nat list" where
  "percentile_levels = map (\<lambda>k. 5 * k) [0..<21]"

definition stat_columns :: "string list" where
  "stat_columns =
     [''ens_mean'', ''ens_std'', ''ens_min'', ''ens_max''] @ map pct_col percentile_levels"

definition stat_cells :: "cell list \<Rightarrow> (string \<times> cell) list" where
  "stat_cells vals =
     [(''ens_mean'', nanmean vals), (''ens_std'', nanstd vals),
      (''ens_min'', nanmin vals), (''ens_max'', nanmax vals)]
     @ map (\<lambda>p. (pct_col p, nanpercentile vals p)) percentile_levels"

text \<open>
  One row of the result, from the row of the merged table at the same position: the
  residual of each matched member, in the order of the loop, then the statistics across
  these residuals when there is a member.
\<close>

definition residual_cells :: "nat list \<Rightarrow> frow \<Rightarrow> (string \<times> cell) list" where
  "residual_cells ens_ids m =
     map (\<lambda>i. (res_col i, fsub (cell m ''consumption_mw'') (cell m (ren_col i)))) ens_ids"

definition residual_row :: "nat list \<Rightarrow> frow \<Rightarrow> frow" where
  "residual_row ens_ids m =
     (let res = residual_cells ens_ids m
      in (fst m, res @ (if ens_ids \<noteq> [] then stat_cells (map snd res) else [])))"

text \<open>
  The member indexes of the loop \<open>for i in range(1, n_members + 1)\<close> whose total
  renewables column is in the merged table.
\<close>

definition matched_members :: "nat \<Rightarrow> frame \<Rightarrow> nat list" where
  "matched_members n merged = filter (\<lambda>i. ren_col i \<in> set (columns merged)) [1..<n + 1]"

text \<open>
  \<open>_compute_residual_scenarios\<close>. The merge raises KeyError when a table has no
  timestamp column, the lookup of the member count when the model is not configured, and
  the first subtraction when the merged table has no \<open>consumption_mw\<close> column.
\<close>

definition compute_residual_scenarios :: "frame \<Rightarrow> frame \<Rightarrow> string \<Rightarrow> error + frame" where
  "compute_residual_scenarios consumption ren_ens model =
     (if df_empty consumption then Inr DataFrame0
      else if df_empty ren_ens then Inr DataFrame0
      else if ''utc_datetime'' \<notin> set (columns consumption)
              \<or> ''utc_datetime'' \<notin> set (columns ren_ens) then Inl KeyError
      else
        (let merged = merge_inner consumption ren_ens
         in if df_empty merged then Inr DataFrame0
            else case AVAILABLE_MODELS model of
                   None \<Rightarrow> Inl KeyError
                 | Some cfg \<Rightarrow>
                     (let ens_ids = matched_members (n_members cfg) merged
                      in if ens_ids \<noteq> [] \<and> ''consumption_mw'' \<notin> set (columns merged)
                         then Inl KeyError
                         else Inr \<lparr>columns = ''utc_datetime'' # map res_col ens_ids
                                              @ (if ens_ids \<noteq> [] then stat_columns else []),
                                   rows = map (residual_row ens_ids) (rows merged)\<rparr>)))"

text \<open>
  The two fetches of \<open>update\<close> over the countries: the tables that are not empty, in
  the order of the countries.
\<close>

fun fetch_renewables ::
  "database \<Rightarrow> string \<Rightarrow> int option \<Rightarrow> string list \<Rightarrow> error + frame list" where
  "fetch_renewables db model issue [] = Inr []"
| "fetch_renewables db model issue (c # cs) =
     (case get_renewable_ensembles db model issue (Some (upper c)) of
        Inl e \<Rightarrow> Inl e
      | Inr df \<Rightarrow>
          (case fetch_renewables db model issue cs of
             Inl e \<Rightarrow> Inl e
           | Inr dfs \<Rightarrow> Inr (if \<not> df_empty df then df # dfs else dfs)))"

definition fetch_consumption :: "database \<Rightarrow> int option \<Rightarrow> string list \<Rightarrow> frame list" where
  "fetch_consumption db issue cs =
     filter (\<lambda>df. \<not> df_empty df) (map (\<lambda>c. get_eq_consumption db issue (Some (lower c))) cs)"

text \<open>\<open>set_index("utc_datetime")\<close> and \<open>reset_index()\<close>.\<close>

definition set_index :: "frame \<Rightarrow> error + frame" where
  "set_index df =
     (if ''utc_datetime'' \<in> set (columns df) then Inr (df\<lparr>columns := value_columns df\<rparr>)
      else Inl KeyError)"

definition reset_index :: "frame \<Rightarrow> frame" where
  "reset_index df = df\<lparr>columns := ''utc_datetime'' # columns df\<rparr>"

definition lookup_cell :: "frame \<Rightarrow> int \<Rightarrow> string \<Rightarrow> cell" where
  "lookup_cell df t c =
     (if c \<in> set (columns df)
      then (case filter (\<lambda>r. fst r = t) (rows df) of [] \<Rightarrow> None | r # _ \<Rightarrow> cell r c)
      else None)"

fun add_fill :: "cell \<Rightarrow> cell \<Rightarrow> cell" where
  "add_fill None None = None"
| "add_fill a b = fadd (fillna0 a) (fillna0 b)"

text \<open>
  \<open>a.add(b, fill_value=0)\<close> on two tables indexed by timestamp (one row per timestamp):
  the union of the indexes and of the columns, ordered unless both sides agree; a cell
  missing on one side counts as zero, a cell missing on both stays not-a-number.
\<close>

definition df_add :: "frame \<Rightarrow> frame \<Rightarrow> frame" where
  "df_add a b =
     (let idx = (if map fst (rows a) = map fst (rows b) then map fst (rows a)
                 else sort (remdups (map fst (rows a) @ map fst (rows b))));
          cols = (if columns a = columns b then columns a
                  else sort (remdups (columns a @ columns b)))
      in \<lparr>columns = cols,
          rows = map (\<lambda>t. (t, map (\<lambda>c. (c, add_fill (lookup_cell a t c) (lookup_cell b t c))) cols))
                     idx\<rparr>)"

fun aggregate_renewables :: "frame option \<Rightarrow> frame list \<Rightarrow> error + frame option" where
  "aggregate_renewables ren_agg [] = Inr ren_agg"
| "aggregate_renewables ren_agg (df # dfs) =
     (case set_index df of
        Inl e \<Rightarrow> Inl e
      | Inr df_idx \<Rightarrow>
          aggregate_renewables
            (Some (case ren_agg of None \<Rightarrow> df_idx | Some agg \<Rightarrow> df_add agg df_idx)) dfs)"

text \<open>
  \<open>pd.concat\<close> of the consumption tables, then the sum of \<open>consumption_mw\<close> per
  timestamp (not-a-number skipped), ordered by timestamp.
\<close>

definition sum_consumption :: "frame list \<Rightarrow> frame" where
  "sum_consumption cons_list =
     (let cons_concat = concat (map rows cons_list)
      in \<lparr>columns = [''utc_datetime'', ''consumption_mw''],
          rows = map (\<lambda>t. (t, [(''consumption_mw'',
                                 Some (sum_list (nonnan (map (\<lambda>r. cell r ''consumption_mw'')
                                                    (filter (\<lambda>r. fst r = t) cons_concat)))))]))
                     (sort (remdups (map fst cons_concat)))\<rparr>)"

text \<open>
  \<open>_save_to_disk\<close>: one file per table of the bundle that is not empty, under the model,
  the table's key and the clock cut to the minute.
\<close>

type_synonym snapshot = "string \<times> string \<times> int \<times> frame"

definition save_to_disk :: "int \<Rightarrow> string \<Rightarrow> scenario_bundle \<Rightarrow> snapshot list" where
  "save_to_disk clock model b =
     (case b of
        EmptyBundle \<Rightarrow> []
      | Bundle res cons ren md \<Rightarrow>
          map (\<lambda>(name, df). (model, name, clock div 60, df))
            (filter (\<lambda>(name, df). \<not> df_empty df)
               [(''residual_scenarios'', res), (''consumption'', cons), (''renewables_ens'', ren)]))"

text \<open>
  Steps 2 to 6 of \<open>update\<close>, once the renewables of the countries are summed:
  consumption, residual scenarios, metadata, the new bundle and its files.
\<close>

definition update_consumption ::
  "database \<Rightarrow> int \<Rightarrow> engine \<Rightarrow> string \<Rightarrow> int option \<Rightarrow> string list \<Rightarrow> frame
     \<Rightarrow> (error + scenario_bundle) \<times> engine \<times> snapshot list" where
  "update_consumption db clock eng1 model issue countries ren_ens =
     (let cons_list = fetch_consumption db issue countries
      in if cons_list = [] then (Inr EmptyBundle, eng1, [])
         else
           (let consumption = sum_consumption cons_list
            in if df_empty consumption then (Inr EmptyBundle, eng1, [])
               else
                 (case compute_residual_scenarios consumption ren_ens model of
                    Inl e \<Rightarrow> (Inl e, eng1, [])
                  | Inr residual \<Rightarrow>
                      (let first_loc = upper (hd countries);
                           actual_issue =
                             (case issue of
                                None \<Rightarrow> get_latest_issue db model ''wind'' (Some first_loc)
                              | Some i \<Rightarrow> Some i)
                       in (case AVAILABLE_MODELS model of
                             None \<Rightarrow> (Inl KeyError, eng1, [])
                           | Some cfg \<Rightarrow>
                               (let b = Bundle residual consumption ren_ens
                                          \<lparr>md_model = model, md_model_label = label cfg,
                                           md_issue = actual_issue, md_updated_at = clock,
                                           md_n_members = n_members cfg,
                                           md_countries = countries\<rparr>;
                                    eng2 = eng1\<lparr>scenarios := b, last_update := Some clock\<rparr>
                                in (Inr b, eng2, save_to_disk clock model b)))))))"

text \<open>The countries of an update: the configured country when none is given.\<close>

definition requested :: "string list option \<Rightarrow> string list" where
  "requested countries0 =
     (case countries0 of None \<Rightarrow> [COUNTRY] | Some cs \<Rightarrow> if cs = [] then [COUNTRY] else cs)"

text \<open>
  \<open>update\<close>: the value returned or the exception raised, the engine afterwards, and the
  files written. \<open>clock\<close> is the UTC time in seconds read by the call.
  \<open>reset_index\<close> on an aggregate that is still None would raise AttributeError; the
  list of tables is not empty there, so the aggregate is a table.
\<close>

definition update ::
  "database \<Rightarrow> int \<Rightarrow> engine \<Rightarrow> string \<Rightarrow> int option \<Rightarrow> string list option
     \<Rightarrow> (error + scenario_bundle) \<times> engine \<times> snapshot list" where
  "update db clock eng model issue countries0 =
     (let eng1 = eng\<lparr>current_model := Some model\<rparr>;
          countries = requested countries0
      in case fetch_renewables db model issue countries of
           Inl e \<Rightarrow> (Inl e, eng1, [])
         | Inr ren_list \<Rightarrow>
            (if ren_list = [] then (Inr EmptyBundle, eng1, [])
             else
               (case aggregate_renewables None ren_list of
                  Inl e \<Rightarrow> (Inl e, eng1, [])
                | Inr None \<Rightarrow> (Inl AttributeError, eng1, [])
                | Inr (Some ren_agg) \<Rightarrow>
                    update_consumption db clock eng1 model issue countries (reset_index ren_agg))))"

text \<open>
  The delta tables have fixed columns, so their rows are records; the empty list stands
  for the empty DataFrame these functions return.
\<close>

record delta_row =
  dr_time :: int
  old_mean :: cell
  new_mean :: cell
  delta :: cell
  delta_pct :: xcell

record residual_delta_row =
  rd_time :: int
  wind_delta :: cell
  solar_delta :: cell
  residual_delta :: cell
  residual_delta_pct :: cell

definition resolve_location :: "string list option \<Rightarrow> string option \<Rightarrow> string" where
  "resolve_location countries location =
     (let location = (if location = None \<and> countries \<noteq> None \<and> countries \<noteq> Some []
                      then Some (hd (the countries)) else location)
      in or_country location)"

definition mean_series :: "frame \<Rightarrow> (int \<times> cell) list" where
  "mean_series df = map (\<lambda>r. (fst r, cell r ''ens_mean'')) (rows df)"

definition delta_of :: "int \<times> cell \<times> cell \<Rightarrow> delta_row" where
  "delta_of c =
     (let t = fst c; ens_mean_old = fst (snd c); ens_mean_new = snd (snd c);
          d = fsub ens_mean_new ens_mean_old
      in \<lparr>dr_time = t, old_mean = ens_mean_old, new_mean = ens_mean_new, delta = d,
          delta_pct = xmul (fdiv d (fadd ens_mean_old (Some (1 / 10)))) 100\<rparr>)"

text \<open>
  \<open>compute_forecast_delta\<close>. Selecting the columns \<open>utc_datetime\<close> and \<open>ens_mean\<close>
  raises KeyError on a table without them.
\<close>

definition compute_forecast_delta ::
  "database \<Rightarrow> string \<Rightarrow> string \<Rightarrow> int \<Rightarrow> int \<Rightarrow> int \<Rightarrow> int \<Rightarrow> string list option
     \<Rightarrow> string option \<Rightarrow> error + delta_row list" where
  "compute_forecast_delta db model element issue_new issue_old valid_start valid_end
       countries location =
     (let location = upper (resolve_location countries location);
          old_df = get_ensemble_by_issue_and_time db model element issue_old
                     valid_start valid_end (Some location);
          new_df = get_ensemble_by_issue_and_time db model element issue_new
                     valid_start valid_end (Some location)
      in if df_empty old_df \<or> df_empty new_df then Inr []
         else if \<not> set [''utc_datetime'', ''ens_mean''] \<subseteq> set (columns old_df)
                 \<or> \<not> set [''utc_datetime'', ''ens_mean''] \<subseteq> set (columns new_df)
         then Inl KeyError
         else
           (let comparison = inner_join (mean_series old_df) (mean_series new_df)
            in if comparison = [] then Inr [] else Inr (map delta_of comparison)))"

definition delta_series :: "delta_row list \<Rightarrow> (int \<times> cell) list" where
  "delta_series ds = map (\<lambda>r. (dr_time r, delta r)) ds"

definition opt_cell :: "cell option \<Rightarrow> cell" where
  "opt_cell v = (case v of None \<Rightarrow> None | Some c \<Rightarrow> c)"

definition residual_of :: "int \<times> cell \<times> cell \<Rightarrow> residual_delta_row" where
  "residual_of c =
     (let w = fillna0 (fst (snd c)); s = fillna0 (snd (snd c));
          rd = fneg (fadd w s)
      in \<lparr>rd_time = fst c, wind_delta = w, solar_delta = s, residual_delta = rd,
          residual_delta_pct = f64_mul (f64_div rd 100) 100\<rparr>)"

text \<open>\<open>compute_residual_load_delta\<close>.\<close>

definition compute_residual_load_delta ::
  "database \<Rightarrow> string \<Rightarrow> int \<Rightarrow> int \<Rightarrow> int \<Rightarrow> int \<Rightarrow> string list option \<Rightarrow> string option
     \<Rightarrow> error + residual_delta_row list" where
  "compute_residual_load_delta db model issue_new issue_old valid_start valid_end
       countries location =
     (let location = Some (resolve_location countries location)
      in case compute_forecast_delta db model ''wind'' issue_new issue_old valid_start valid_end
                countries location of
           Inl e \<Rightarrow> Inl e
         | Inr wind \<Rightarrow>
        (case compute_forecast_delta db model ''solar'' issue_new issue_old valid_start valid_end
                countries location of
           Inl e \<Rightarrow> Inl e
         | Inr solar \<Rightarrow>
             if wind = [] \<and> solar = [] then Inr []
             else
               (let result =
                      (if wind \<noteq> [] \<and> solar \<noteq> []
                       then map (\<lambda>(t, w, s). (t, opt_cell w, opt_cell s))
                              (outer_join (delta_series wind) (delta_series solar))
                       else if wind \<noteq> []
                       then map (\<lambda>(t, w). (t, w, Some 0)) (delta_series wind)
                       else map (\<lambda>(t, s). (t, Some 0, s)) (delta_series solar))
                in if result = [] then Inr []
                   else Inr (map residual_of (sort_key fst result)))))"

text \<open>
  The rows of the combined wind and solar table before the fill, as a set: the three
  branches on which of the two delta tables is empty.
\<close>

definition combined :: "delta_row list \<Rightarrow> delta_row list \<Rightarrow> (int \<times> cell \<times> cell) set" where
  "combined wind solar =
     (if wind \<noteq> [] \<and> solar \<noteq> []
      then (\<lambda>(t, w, s). (t, opt_cell w, opt_cell s)) `
             set (outer_join (delta_series wind) (delta_series solar))
      else if wind \<noteq> [] then (\<lambda>(t, w). (t, w, Some 0)) ` set (delta_series wind)
      else (\<lambda>(t, s). (t, Some 0, s)) ` set (delta_series solar))"

section \<open>Example inputs\<close>

text \<open>
  A store with two issues of two hours of wind (two members, then one) and one hour of
  solar: issue 1 is the old run, every other issue the new one.
\<close>

definition delta_db :: database where
  "delta_db =
     \<lparr>max_issue = (\<lambda>location model element. QRows None),
      ensemble_rows = (\<lambda>location model element issue members. QRows []),
      issue_time_rows = (\<lambda>location model element issue valid_start valid_end.
         if element = ''wind''
         then QRows (if issue = 1 then [(0, ''1'', Some 1), (0, ''2'', Some 1), (1, ''1'', Some 1)]
                     else [(0, ''1'', Some 3), (0, ''2'', Some 5), (1, ''1'', Some 2)])
         else QRows (if issue = 1 then [(0, ''1'', Some 1)] else [(0, ''1'', Some 3)])),
      consumption_rows = (\<lambda>location. QRows [])\<rparr>"


text \<open>
  The scenario of the specification: consumption 100, 110, 120, 130 at four hours and two
  members with constant total renewables 10 and 20.
\<close>

definition cons4 :: frame where
  "cons4 = \<lparr>columns = [''utc_datetime'', ''consumption_mw''],
     rows = [(0, [(''consumption_mw'', Some 100)]), (1, [(''consumption_mw'', Some 110)]),
             (2, [(''consumption_mw'', Some 120)]), (3, [(''consumption_mw'', Some 130)])]\<rparr>"

definition ren4 :: frame where
  "ren4 = \<lparr>columns = [''utc_datetime'', ''total_ren_ens_01'', ''total_ren_ens_02''],
     rows = [(0, [(''total_ren_ens_01'', Some 10), (''total_ren_ens_02'', Some 20)]),
             (1, [(''total_ren_ens_01'', Some 10), (''total_ren_ens_02'', Some 20)]),
             (2, [(''total_ren_ens_01'', Some 10), (''total_ren_ens_02'', Some 20)]),
             (3, [(''total_ren_ens_01'', Some 10), (''total_ren_ens_02'', Some 20)])]\<rparr>"

text \<open>
  One hour whose consumption is not-a-number (forecast and actual both NULL in the
  store), and one member of renewables.
\<close>

definition cons_nan :: frame where
  "cons_nan = \<lparr>columns = [''utc_datetime'', ''consumption_mw''],
     rows = [(0, [(''consumption_mw'', None)])]\<rparr>"

definition ren1 :: frame where
  "ren1 = \<lparr>columns = [''utc_datetime'', ''total_ren_ens_01''],
     rows = [(0, [(''total_ren_ens_01'', Some 10)])]\<rparr>"

text \<open>A store without any issue, member row or consumption row.\<close>

definition empty_db :: database where
  "empty_db =
     \<lparr>max_issue = (\<lambda>location model element. QRows None),
      ensemble_rows = (\<lambda>location model element issue members. QRows []),
      issue_time_rows = (\<lambda>location model element issue valid_start valid_end. QRows []),
      consumption_rows = (\<lambda>location. QRows [])\<rparr>"

text \<open>
  A store with one issue that has wind members 1 and 2 at one hour, no solar row, and one
  hour of consumption.
\<close>

definition wind_only_db :: database where
  "wind_only_db =
     \<lparr>max_issue = (\<lambda>location model element. QRows (Some 1)),
      ensemble_rows = (\<lambda>location model element issue members.
         if element = ''wind'' then QRows [(0, ''1'', Some 5), (0, ''2'', Some 7)] else QRows []),
      issue_time_rows = (\<lambda>location model element issue valid_start valid_end. QRows []),
      consumption_rows = (\<lambda>location. QRows [(0, Some 100)])\<rparr>"

text \<open>An engine after a successful update with the model eceps.\<close>

definition old_engine :: engine where
  "old_engine =
     \<lparr>last_update = Some 1000, current_model = Some ''eceps'',
      scenarios = Bundle cons4 cons4 ren4
        \<lparr>md_model = ''eceps'', md_model_label = ''ECMWF ENS (eceps)'', md_issue = Some 1,
         md_updated_at = 1000, md_n_members = 50, md_countries = [''FR'']\<rparr>\<rparr>"

definition cons1 :: frame where
  "cons1 = \<lparr>columns = [''utc_datetime'', ''consumption_mw''],
             rows = [(0, [(''consumption_mw'', Some 100)])]\<rparr>"

text \<open>
  A store with one issue that has a wind and a solar member at one hour, and no consumption
  row.
\<close>

definition no_consumption_db :: database where
  "no_consumption_db =
     \<lparr>max_issue = (\<lambda>location model element. QRows (Some 1)),
      ensemble_rows = (\<lambda>location model element issue members.
         if element = ''wind'' then QRows [(0, ''1'', Some 5)] else QRows [(0, ''1'', Some 2)]),
      issue_time_rows = (\<lambda>location model element issue valid_start valid_end. QRows []),
      consumption_rows = (\<lambda>location. QRows [])\<rparr>"


text \<open>
  A store whose wind mean falls from 8 to 1 at one hour, without solar: the residual delta
  is 7.
\<close>

definition seven_db :: database where
  "seven_db =
     \<lparr>max_issue = (\<lambda>location model element. QRows None),
      ensemble_rows = (\<lambda>location model element issue members. QRows []),
      issue_time_rows = (\<lambda>location model element issue valid_start valid_end.
         if element = ''wind''
         then QRows (if issue = 1 then [(0, ''1'', Some 8)] else [(0, ''1'', Some 1)])
         else QRows []),
      consumption_rows = (\<lambda>location. QRows [])\<rparr>"

text \<open>Two tables in which the timestamp 1 has two rows.\<close>

definition cons_dup :: frame where
  "cons_dup = \<lparr>columns = [''utc_datetime'', ''consumption_mw''],
     rows = [(1, [(''consumption_mw'', Some 100)]), (1, [(''consumption_mw'', Some 110)])]\<rparr>"

definition ren_dup :: frame where
  "ren_dup = \<lparr>columns = [''utc_datetime'', ''total_ren_ens_01''],
     rows = [(1, [(''total_ren_ens_01'', Some 10)]), (1, [(''total_ren_ens_01'', Some 20)])]\<rparr>"

section \<open>Joins\<close>


lemma outer_group_set:
  "(k', oa, ob) \<in> set (outer_group k l r) \<longleftrightarrow>
     k' = k \<and>
     ((\<exists>a b. oa = Some a \<and> ob = Some b \<and> (k, a) \<in> set l \<and> (k, b) \<in> set r)
      \<or> (\<exists>a. oa = Some a \<and> ob = None \<and> (k, a) \<in> set l \<and> k \<notin> fst ` set r)
      \<or> (\<exists>b. oa = None \<and> ob = Some b \<and> (k, b) \<in> set r \<and> k \<notin> fst ` set l))"
proof (cases "filter (\<lambda>b. fst b = k) r = []")
  case True
  then have nr: "k \<notin> fst ` set r" by (auto simp: filter_empty_conv)
  then have nr': "\<And>b. (k, b) \<notin> set r" by force
  show ?thesis using True nr nr' by (force simp: outer_group_def)
next
  case False
  then have inr: "k \<in> fst ` set r" by (auto simp: filter_empty_conv)
  show ?thesis
  proof (cases "filter (\<lambda>a. fst a = k) l = []")
    case True
    then have nl: "k \<notin> fst ` set l" by (auto simp: filter_empty_conv)
    then have nl': "\<And>a. (k, a) \<notin> set l" by force
    show ?thesis using True False inr nl nl' by (force simp: outer_group_def)
  next
    case True2: False
    then have inl: "k \<in> fst ` set l" by (auto simp: filter_empty_conv)
    show ?thesis using True2 False inr inl by (force simp: outer_group_def)
  qed
qed

lemma outer_join_set:
  "(k, oa, ob) \<in> set (outer_join l r) \<longleftrightarrow>
     (\<exists>a b. oa = Some a \<and> ob = Some b \<and> (k, a) \<in> set l \<and> (k, b) \<in> set r)
     \<or> (\<exists>a. oa = Some a \<and> ob = None \<and> (k, a) \<in> set l \<and> k \<notin> fst ` set r)
     \<or> (\<exists>b. oa = None \<and> ob = Some b \<and> (k, b) \<in> set r \<and> k \<notin> fst ` set l)"
  (is "?L \<longleftrightarrow> ?R")
proof -
  have "?L \<longleftrightarrow> k \<in> fst ` set l \<union> fst ` set r \<and> (k, oa, ob) \<in> set (outer_group k l r)"
    by (auto simp: outer_join_def outer_group_set)
  moreover have "?R \<Longrightarrow> k \<in> fst ` set l \<union> fst ` set r"
    by force
  ultimately show ?thesis
    unfolding outer_group_set by blast
qed

lemma outer_join_nonempty: "l \<noteq> [] \<Longrightarrow> outer_join l r \<noteq> []"
proof -
  assume "l \<noteq> []"
  then obtain k a where ka: "(k, a) \<in> set l" by (cases l) auto
  show ?thesis
  proof (cases "k \<in> fst ` set r")
    case True
    then obtain b where "(k, b) \<in> set r" by auto
    with ka have "(k, Some a, Some b) \<in> set (outer_join l r)" by (auto simp: outer_join_set)
    then show ?thesis by auto
  next
    case False
    with ka have "(k, Some a, None) \<in> set (outer_join l r)" by (auto simp: outer_join_set)
    then show ?thesis by auto
  qed
qed

section \<open>Forecast delta between two issues\<close>

lemma rename_one_keeps:
  "c \<in> set (columns d) \<Longrightarrow> c \<noteq> old \<Longrightarrow> c \<in> set (columns (rename_one old new d))"
  by (force simp: rename_one_def)

lemma rename_one_new:
  "old \<in> set (columns d) \<Longrightarrow> new \<in> set (columns (rename_one old new d))"
  by (force simp: rename_one_def)

lemma rename_fold_keeps:
  "c \<in> set (columns d) \<Longrightarrow> c \<notin> set xs \<Longrightarrow>
     c \<in> set (columns (foldl (\<lambda>d col. rename_one col (f col) d) d xs))"
  by (induction xs arbitrary: d) (simp_all add: rename_one_keeps)

lemma rename_one_rows: "rows (rename_one old new d) = [] \<longleftrightarrow> rows d = []"
  by (simp add: rename_one_def)

lemma rename_fold_rows:
  "rows (foldl (\<lambda>d col. rename_one col (f col) d) d xs) = [] \<longleftrightarrow> rows d = []"
  by (induction xs arbitrary: d) (simp_all add: rename_one_rows)

lemma rename_fold_last:
  assumes "x \<in> set (columns d)" and "x \<notin> set xs"
  shows "f x \<in> set (columns (foldl (\<lambda>d col. rename_one col (f col) d) d (xs @ [x])))"
  using rename_fold_keeps [OF assms, of f] by (simp add: rename_one_new)

lemma assign_columns: "c \<in> set (columns (assign df c f))"
  by (simp add: assign_def)

lemma assign_keeps: "c' \<in> set (columns df) \<Longrightarrow> c' \<in> set (columns (assign df c f))"
  by (simp add: assign_def)

lemma assign_rows: "rows (assign df c f) = [] \<longleftrightarrow> rows df = []"
  by (simp add: assign_def)

lemma pivot_table_shape:
  assumes "pivot_table lr = Inr p"
  shows "\<exists>mem. columns p = ''utc_datetime'' # mem \<and> distinct mem \<and> ''utc_datetime'' \<notin> set mem
           \<and> (rows p \<noteq> [] \<longrightarrow> mem \<noteq> [])"
proof -
  define kept where "kept = filter (\<lambda>(t, m, v). v \<noteq> None) lr"
  define mem where "mem = sort (remdups (map (\<lambda>(t, m, v). m) kept))"
  from assms have c: "columns p = ''utc_datetime'' # mem" and n: "''utc_datetime'' \<notin> set mem"
    and r: "rows p = [] \<longleftrightarrow> sort (remdups (map fst kept)) = []"
    by (auto simp: pivot_table_def Let_def kept_def mem_def split: if_splits)
  have d: "distinct mem" by (simp add: mem_def)
  have "mem \<noteq> []" if "rows p \<noteq> []"
  proof -
    from that r have "kept \<noteq> []" by auto
    then have "map (\<lambda>(t, m, v). m) kept \<noteq> []" by simp
    then have "set (map (\<lambda>(t, m, v). m) kept) \<noteq> {}" by (simp del: set_map)
    then have "set mem \<noteq> {}" by (simp add: mem_def del: set_map)
    then show ?thesis by auto
  qed
  with c n d show ?thesis by blast
qed

lemma get_ensemble_by_issue_and_time_columns:
  assumes "\<not> df_empty (get_ensemble_by_issue_and_time db model element issue vs ve location)"
  shows "set [''utc_datetime'', ''ens_mean'']
           \<subseteq> set (columns (get_ensemble_by_issue_and_time db model element issue vs ve location))"
proof -
  let ?df = "get_ensemble_by_issue_and_time db model element issue vs ve location"
  have e0: "df_empty DataFrame0" by (simp add: df_empty_def DataFrame0_def)
  from assms e0 obtain lr p where p: "pivot_table lr = Inr p"
    and df: "?df = (let member_cols = value_columns p;
                      pivot = foldl (\<lambda>d col. rename_one col (''ens_'' @ col) d) p member_cols;
                      ens_cols = filter (starts_with ''ens_'') (columns pivot)
                  in if ens_cols \<noteq> []
                     then assign pivot ''ens_mean'' (\<lambda>r. nanmean (map (cell r) ens_cols))
                     else pivot)"
    by (auto simp: get_ensemble_by_issue_and_time_def split: qres.splits if_splits sum.splits)
  from pivot_table_shape [OF p] obtain mem where
    c: "columns p = ''utc_datetime'' # mem" and d: "distinct mem"
    and n: "''utc_datetime'' \<notin> set mem" and ne: "rows p \<noteq> [] \<longrightarrow> mem \<noteq> []"
    by blast
  have vc: "value_columns p = mem" using c n by (auto simp: value_columns_def filter_id_conv)
  define pivot where "pivot = foldl (\<lambda>d col. rename_one col (''ens_'' @ col) d) p mem"
  define ens_cols where "ens_cols = filter (starts_with ''ens_'') (columns pivot)"
  have df': "?df = (if ens_cols \<noteq> []
                     then assign pivot ''ens_mean'' (\<lambda>r. nanmean (map (cell r) ens_cols))
                     else pivot)"
    unfolding df vc Let_def pivot_def ens_cols_def by (rule refl)
  have "rows ?df \<noteq> []" using assms by (simp add: df_empty_def)
  then have "rows pivot \<noteq> []" unfolding df' by (simp add: assign_rows split: if_splits)
  then have "rows p \<noteq> []" unfolding pivot_def by (simp add: rename_fold_rows)
  with ne have "mem \<noteq> []" by simp
  then obtain xs x where mem: "mem = xs @ [x]" by (metis rev_exhaust)
  have x: "x \<in> set (columns p)" "x \<notin> set xs" using c d mem by auto
  have "''ens_'' @ x \<in> set (columns pivot)"
    unfolding pivot_def mem using rename_fold_last [OF x, of "\<lambda>col. ''ens_'' @ col"] by simp
  then have "''ens_'' @ x \<in> set ens_cols" by (simp add: ens_cols_def starts_with_def)
  then have ec: "ens_cols \<noteq> []" by auto
  have "''utc_datetime'' \<in> set (columns pivot)"
    unfolding pivot_def using c n by (intro rename_fold_keeps) simp_all
  then show ?thesis unfolding df' using ec by (simp add: assign_columns assign_keeps)
qed

lemma compute_forecast_delta_total:
  "\<exists>ds. compute_forecast_delta db model element issue_new issue_old valid_start valid_end
          countries location = Inr ds"
  using get_ensemble_by_issue_and_time_columns
  by (simp add: compute_forecast_delta_def Let_def)





section \<open>Residual load delta\<close>

lemma residual_of_fields:
  "wind_delta (residual_of (t, w, s)) = fillna0 w"
  "solar_delta (residual_of (t, w, s)) = fillna0 s"
  "rd_time (residual_of (t, w, s)) = t"
  "residual_delta (residual_of (t, w, s)) = fneg (fadd (fillna0 w) (fillna0 s))"
  by (simp_all add: residual_of_def Let_def)

subsection \<open>Rounding to binary64\<close>

lemma rne_err: "\<bar>of_int (rne m) - m\<bar> \<le> 1 / 2"
  unfolding rne_def Let_def by (auto simp: abs_le_iff)

lemma expo_bounds:
  assumes "0 < x"
  shows "2 powi (expo x) \<le> x \<and> x < 2 powi (expo x + 1)"
proof (cases "1 \<le> x")
  case True
  define n where "n = nat \<lfloor>x\<rfloor>"
  have n: "0 < n" using True by (simp add: n_def)
  from floorlog_bounds [OF n, of 2] have b: "2 ^ (floorlog 2 n - 1) \<le> n" "n < 2 ^ floorlog 2 n"
    by simp_all
  have fl: "0 < floorlog 2 n" using n by (simp add: floorlog_def)
  have e: "expo x = int (floorlog 2 n) - 1" using True by (simp add: expo_def n_def)
  have "real n \<le> x" using True by (simp add: n_def)
  moreover have "x < real n + 1" using True by (simp add: n_def)
  moreover have "real (2 ^ (floorlog 2 n - 1)) \<le> real n" using b(1) by (simp only: of_nat_le_iff)
  moreover have "real n + 1 \<le> real (2 ^ floorlog 2 n)" using b(2)
    by (metis Suc_leI of_nat_Suc of_nat_le_iff add.commute)
  moreover have "2 powi (expo x) = real (2 ^ (floorlog 2 n - 1))"
    using fl by (simp add: e power_int_def nat_diff_distrib)
  moreover have "2 powi (expo x + 1) = real (2 ^ floorlog 2 n)"
    by (simp add: e power_int_def)
  ultimately show ?thesis by linarith
next
  case False
  define m where "m = nat \<lceil>1 / x\<rceil>"
  define k where "k = floorlog 2 (m - 1)"
  have inv: "1 < 1 / x" using False assms by simp
  then have "1 < \<lceil>1 / x\<rceil>" by (simp add: less_ceiling_iff)
  then have m2: "2 \<le> m" unfolding m_def by linarith
  have e: "expo x = - int k" using False by (simp add: expo_def k_def m_def)
  have m1: "0 < m - 1" using m2 by simp
  from floorlog_bounds [OF m1, of 2] have b: "2 ^ (k - 1) \<le> m - 1" "m - 1 < 2 ^ k"
    by (simp_all add: k_def)
  have kpos: "0 < k" using m1 by (simp add: k_def floorlog_def)
  have "1 / x \<le> real_of_int \<lceil>1 / x\<rceil>" by (rule le_of_int_ceiling)
  moreover have "real m = real_of_int \<lceil>1 / x\<rceil>"
    using \<open>1 < \<lceil>1 / x\<rceil>\<close> by (simp add: m_def)
  ultimately have up: "1 / x \<le> real m" by simp
  have "real_of_int \<lceil>1 / x\<rceil> - 1 < 1 / x" by linarith
  moreover have "real m = real_of_int \<lceil>1 / x\<rceil>" using m2 by (simp add: m_def)
  ultimately have lo: "real m - 1 < 1 / x" by simp
  have "m \<le> 2 ^ k" using b(2) m2 by linarith
  then have "real m \<le> real (2 ^ k)" by (simp only: of_nat_le_iff)
  then have "real m \<le> 2 ^ k" by simp
  with up have "1 / x \<le> 2 ^ k" by linarith
  then have A: "1 / 2 ^ k \<le> x" using assms by (simp add: field_simps)
  have "real (2 ^ (k - 1)) \<le> real (m - 1)" using b(1) by (simp only: of_nat_le_iff)
  then have "2 ^ (k - 1) \<le> real m - 1" using m2 by (simp add: of_nat_diff)
  with lo have "2 ^ (k - 1) < 1 / x" by linarith
  then have B: "x < 1 / 2 ^ (k - 1)" using assms by (simp add: field_simps)
  have "2 powi (expo x) = 1 / (2::real) ^ k"
    by (simp add: e power_int_def field_simps power_inverse)
  moreover have "2 powi (expo x + 1) = 1 / (2::real) ^ (k - 1)"
  proof -
    have "expo x + 1 = - int (k - 1)" using kpos by (simp add: e)
    then show ?thesis by (simp add: power_int_def field_simps power_inverse del: of_nat_diff)
  qed
  ultimately show ?thesis using A B by simp
qed

lemma round_f64_err: "\<bar>round_f64 x - x\<bar> \<le> \<bar>x\<bar> / 2 ^ 53 + 1 / 2 ^ 1075"
proof (cases "x = 0")
  case True
  then show ?thesis by (simp add: round_f64_def)
next
  case False
  define e where "e = max (expo \<bar>x\<bar>) (- 1022)"
  define q :: real where "q = 2 powi (e - 52)"
  define m where "m = \<bar>x\<bar> / q"
  have q: "0 < q" by (simp add: q_def)
  have r: "round_f64 x = sgn x * of_int (rne m) * q"
    using False by (simp add: round_f64_def Let_def e_def q_def m_def)
  have x: "x = sgn x * (m * q)" using q by (simp add: m_def sgn_mult_abs)
  have "round_f64 x - x = sgn x * ((of_int (rne m) - m) * q)"
    by (subst r, subst (2) x) (simp add: algebra_simps)
  then have "\<bar>round_f64 x - x\<bar> = \<bar>of_int (rne m) - m\<bar> * q"
    using False q by (simp add: abs_mult abs_sgn_eq)
  also have "\<dots> \<le> (1 / 2) * q" using rne_err [of m] q by (intro mult_right_mono) simp_all
  also have "\<dots> = 2 powi (e - 53)"
  proof -
    have "(2::real) powi (e - 52) = 2 powi (e - 53 + 1)" by simp
    also have "\<dots> = 2 powi (e - 53) * 2" by (subst power_int_add) simp_all
    finally show ?thesis by (simp add: q_def)
  qed
  finally have b: "\<bar>round_f64 x - x\<bar> \<le> 2 powi (e - 53)" .
  have "2 powi (e - 53) \<le> \<bar>x\<bar> / 2 ^ 53 + 1 / 2 ^ 1075"
  proof (cases "- 1022 \<le> expo \<bar>x\<bar>")
    case True
    then have e: "e = expo \<bar>x\<bar>" by (simp add: e_def)
    have "(2::real) powi (e - 53) = 2 powi e / 2 powi 53" by (subst power_int_diff) simp_all
    also have "\<dots> = 2 powi e / 2 ^ 53" by (simp add: power_int_def)
    also have "\<dots> \<le> \<bar>x\<bar> / 2 ^ 53"
      using expo_bounds [of "\<bar>x\<bar>"] False by (intro divide_right_mono) (simp_all add: e)
    finally have "2 powi (e - 53) \<le> \<bar>x\<bar> / 2 ^ 53" .
    moreover have "(0::real) \<le> 1 / 2 ^ 1075" by simp
    ultimately show ?thesis by linarith
  next
    case False
    then have "e = - 1022" by (simp add: e_def)
    then have "(2::real) powi (e - 53) = 1 / 2 ^ 1075" by (simp add: power_int_def field_simps power_inverse)
    then show ?thesis by simp
  qed
  with b show ?thesis by linarith
qed

lemma pct_err_abstract:
  fixes u c x y p :: real
  assumes u: "0 \<le> u" "u \<le> 1" and c: "0 \<le> c"
    and y: "\<bar>y - x / 100\<bar> \<le> \<bar>x / 100\<bar> * u + c"
    and p: "\<bar>p - y * 100\<bar> \<le> \<bar>y * 100\<bar> * u + c"
  shows "\<bar>p - x\<bar> \<le> 4 * (\<bar>x\<bar> * u) + 256 * c"
proof -
  have a: "\<bar>y * 100 - x\<bar> \<le> \<bar>x\<bar> * u + 100 * c"
  proof -
    have "\<bar>y * 100 - x\<bar> = 100 * \<bar>y - x / 100\<bar>" by (simp add: abs_if)
    also have "\<dots> \<le> 100 * (\<bar>x / 100\<bar> * u + c)" using y by simp
    also have "\<dots> = \<bar>x\<bar> * u + 100 * c" by (simp add: algebra_simps)
    finally show ?thesis .
  qed
  then have "\<bar>y * 100\<bar> \<le> \<bar>x\<bar> + \<bar>x\<bar> * u + 100 * c" by linarith
  then have "\<bar>y * 100\<bar> * u \<le> (\<bar>x\<bar> + \<bar>x\<bar> * u + 100 * c) * u"
    using u(1) by (rule mult_right_mono)
  also have "\<dots> \<le> (\<bar>x\<bar> + \<bar>x\<bar> * u + 100 * c) * 1"
    using u c by (intro mult_left_mono) (simp_all add: add_nonneg_nonneg)
  finally have b: "\<bar>y * 100\<bar> * u \<le> \<bar>x\<bar> + \<bar>x\<bar> * u + 100 * c" by simp
  have "\<bar>y * 100\<bar> * u \<le> 2 * (\<bar>x\<bar> * u) + 100 * c"
  proof -
    have "(\<bar>x\<bar> + \<bar>x\<bar> * u + 100 * c) * u = \<bar>x\<bar> * u + (\<bar>x\<bar> * u) * u + (100 * c) * u"
      by (simp add: algebra_simps)
    moreover have "(\<bar>x\<bar> * u) * u \<le> (\<bar>x\<bar> * u) * 1"
      using u by (intro mult_left_mono) simp_all
    moreover have "(100 * c) * u \<le> (100 * c) * 1"
      using u c by (intro mult_left_mono) simp_all
    ultimately have "(\<bar>x\<bar> + \<bar>x\<bar> * u + 100 * c) * u \<le> 2 * (\<bar>x\<bar> * u) + 100 * c" by linarith
    with \<open>\<bar>y * 100\<bar> * u \<le> (\<bar>x\<bar> + \<bar>x\<bar> * u + 100 * c) * u\<close> show ?thesis by linarith
  qed
  with p have "\<bar>p - y * 100\<bar> \<le> 2 * (\<bar>x\<bar> * u) + 101 * c" by linarith
  with a have "\<bar>p - x\<bar> \<le> 3 * (\<bar>x\<bar> * u) + 201 * c" by linarith
  moreover have "0 \<le> \<bar>x\<bar> * u" using u by simp
  ultimately show ?thesis using c by linarith
qed

lemma pct_round_err:
  "\<bar>round_f64 (round_f64 (x / 100) * 100) - x\<bar> \<le> \<bar>x\<bar> / 2 ^ 51 + 1 / 2 ^ 1067"
proof -
  have "\<bar>round_f64 (round_f64 (x / 100) * 100) - x\<bar>
          \<le> 4 * (\<bar>x\<bar> * (1 / 2 ^ 53)) + 256 * (1 / 2 ^ 1075)"
    using round_f64_err [of "x / 100"] round_f64_err [of "round_f64 (x / 100) * 100"]
    by (intro pct_err_abstract [where y = "round_f64 (x / 100)"]) simp_all
  moreover have "4 * (\<bar>x\<bar> * (1 / 2 ^ 53)) = \<bar>x\<bar> / 2 ^ 51"
  proof -
    have "(2::real) ^ 53 = 4 * 2 ^ 51" by simp
    then show ?thesis by simp
  qed
  moreover have "256 * (1 / 2 ^ 1075) = (1::real) / 2 ^ 1067"
  proof -
    have "(2::real) ^ 1075 = 2 ^ 8 * 2 ^ 1067" by (simp flip: power_add)
    then show ?thesis by simp
  qed
  ultimately show ?thesis by simp
qed

lemma residual_of_pct:
  "\<exists>x. residual_delta (residual_of c) = Some x
       \<and> residual_delta_pct (residual_of c) = Some (round_f64 (round_f64 (x / 100) * 100))"
  by (cases "fst (snd c)"; cases "snd (snd c)") (simp_all add: residual_of_def Let_def)

lemma delta_series_Nil: "delta_series ds = [] \<longleftrightarrow> ds = []"
  by (simp add: delta_series_def)

lemma residual_load_delta_set:
  assumes "compute_forecast_delta db model ''wind'' issue_new issue_old valid_start valid_end
       countries (Some (resolve_location countries location)) = Inr wind"
    and "compute_forecast_delta db model ''solar'' issue_new issue_old valid_start valid_end
       countries (Some (resolve_location countries location)) = Inr solar"
  shows "\<exists>rs. compute_residual_load_delta db model issue_new issue_old valid_start valid_end
             countries location = Inr rs
          \<and> set rs = residual_of ` combined wind solar"
  using assms
  by (auto simp: compute_residual_load_delta_def Let_def combined_def delta_series_Nil
        outer_join_nonempty)

lemma delta_series_set: "(t, v) \<in> set (delta_series ds) \<longleftrightarrow> (\<exists>d\<in>set ds. dr_time d = t \<and> delta d = v)"
  by (auto simp: delta_series_def)

lemma delta_series_keys: "fst ` set (delta_series ds) = dr_time ` set ds"
  by (force simp: delta_series_def)

lemma combined_wind:
  assumes "(t, w, s) \<in> combined wind solar"
  shows "(\<exists>d\<in>set wind. dr_time d = t \<and> w = delta d) \<or> (t \<notin> dr_time ` set wind \<and> w = None)
           \<or> (wind = [] \<and> w = Some 0)"
proof (cases "wind \<noteq> [] \<and> solar \<noteq> []")
  case True
  with assms obtain oa ob where m: "(t, oa, ob) \<in> set (outer_join (delta_series wind) (delta_series solar))"
    and w: "w = opt_cell oa" by (auto simp: combined_def)
  from m show ?thesis unfolding outer_join_set delta_series_keys w
    by (auto simp: delta_series_set opt_cell_def)
next
  case False
  with assms show ?thesis
    by (auto simp: combined_def delta_series_set split: if_splits)
qed

lemma combined_solar:
  assumes "(t, w, s) \<in> combined wind solar"
  shows "(\<exists>d\<in>set solar. dr_time d = t \<and> s = delta d) \<or> (t \<notin> dr_time ` set solar \<and> s = None)
           \<or> (solar = [] \<and> s = Some 0)"
proof (cases "wind \<noteq> [] \<and> solar \<noteq> []")
  case True
  with assms obtain oa ob where m: "(t, oa, ob) \<in> set (outer_join (delta_series wind) (delta_series solar))"
    and s: "s = opt_cell ob" by (auto simp: combined_def)
  from m show ?thesis unfolding outer_join_set delta_series_keys s
    by (auto simp: delta_series_set opt_cell_def)
next
  case False
  with assms show ?thesis
    by (auto simp: combined_def delta_series_set split: if_splits)
qed

lemma combined_keeps_wind:
  assumes "d \<in> set wind"
  shows "\<exists>s. (dr_time d, delta d, s) \<in> combined wind solar"
proof (cases "solar = []")
  case True
  with assms show ?thesis by (force simp: combined_def delta_series_def)
next
  case False
  from assms have w: "wind \<noteq> []" by auto
  from assms have k: "(dr_time d, delta d) \<in> set (delta_series wind)" by (auto simp: delta_series_set)
  show ?thesis
  proof (cases "dr_time d \<in> fst ` set (delta_series solar)")
    case True
    then obtain b where "(dr_time d, b) \<in> set (delta_series solar)" by auto
    with k have "(dr_time d, Some (delta d), Some b) \<in> set (outer_join (delta_series wind) (delta_series solar))"
      by (auto simp: outer_join_set)
    then have "(dr_time d, delta d, b) \<in> combined wind solar"
      using w False by (force simp: combined_def opt_cell_def)
    then show ?thesis by blast
  next
    case nk: False
    with k have "(dr_time d, Some (delta d), None) \<in> set (outer_join (delta_series wind) (delta_series solar))"
      by (auto simp: outer_join_set)
    then have "(dr_time d, delta d, None) \<in> combined wind solar"
      using w False by (force simp: combined_def opt_cell_def)
    then show ?thesis by blast
  qed
qed

lemma combined_keeps_solar:
  assumes "d \<in> set solar"
  shows "\<exists>w. (dr_time d, w, delta d) \<in> combined wind solar"
proof (cases "wind = []")
  case True
  with assms show ?thesis by (force simp: combined_def delta_series_def)
next
  case False
  from assms have w: "solar \<noteq> []" by auto
  from assms have k: "(dr_time d, delta d) \<in> set (delta_series solar)" by (auto simp: delta_series_set)
  show ?thesis
  proof (cases "dr_time d \<in> fst ` set (delta_series wind)")
    case True
    then obtain a where "(dr_time d, a) \<in> set (delta_series wind)" by auto
    with k have "(dr_time d, Some a, Some (delta d)) \<in> set (outer_join (delta_series wind) (delta_series solar))"
      by (auto simp: outer_join_set)
    then have "(dr_time d, a, delta d) \<in> combined wind solar"
      using w False by (force simp: combined_def opt_cell_def)
    then show ?thesis by blast
  next
    case nk: False
    with k have "(dr_time d, None, Some (delta d)) \<in> set (outer_join (delta_series wind) (delta_series solar))"
      by (auto simp: outer_join_set)
    then have "(dr_time d, None, delta d) \<in> combined wind solar"
      using w False by (force simp: combined_def opt_cell_def)
    then show ?thesis by blast
  qed
qed

lemma residual_load_delta_props:
  assumes wind: "compute_forecast_delta db model ''wind'' issue_new issue_old valid_start
       valid_end countries (Some (resolve_location countries location)) = Inr wind"
    and solar: "compute_forecast_delta db model ''solar'' issue_new issue_old valid_start
       valid_end countries (Some (resolve_location countries location)) = Inr solar"
  shows "\<exists>rs. compute_residual_load_delta db model issue_new issue_old valid_start valid_end
             countries location = Inr rs
       \<and> (\<forall>r\<in>set rs. \<exists>w s. wind_delta r = Some w \<and> solar_delta r = Some s
                          \<and> residual_delta r = Some (- (w + s)))
       \<and> (\<forall>r\<in>set rs. wind_delta r = Some 3 \<and> solar_delta r = Some 2
                          \<longrightarrow> residual_delta r = Some (- 5))
       \<and> (\<forall>r\<in>set rs. (\<exists>d\<in>set wind. dr_time d = rd_time r \<and> wind_delta r = fillna0 (delta d))
                          \<or> (rd_time r \<notin> dr_time ` set wind \<and> wind_delta r = Some 0))
       \<and> (\<forall>r\<in>set rs. (\<exists>d\<in>set solar. dr_time d = rd_time r \<and> solar_delta r = fillna0 (delta d))
                          \<or> (rd_time r \<notin> dr_time ` set solar \<and> solar_delta r = Some 0))
       \<and> (\<forall>d\<in>set wind. \<exists>r\<in>set rs. rd_time r = dr_time d \<and> wind_delta r = fillna0 (delta d))
       \<and> (\<forall>d\<in>set solar. \<exists>r\<in>set rs. rd_time r = dr_time d \<and> solar_delta r = fillna0 (delta d))"
proof -
  from residual_load_delta_set [OF wind solar] obtain rs where
    rs: "compute_residual_load_delta db model issue_new issue_old valid_start valid_end
           countries location = Inr rs"
    and set_rs: "set rs = residual_of ` combined wind solar"
    by blast
  have p1: "\<exists>w s. wind_delta r = Some w \<and> solar_delta r = Some s
              \<and> residual_delta r = Some (- (w + s))" if "r \<in> set rs" for r
  proof -
    from that set_rs obtain t w s where r: "r = residual_of (t, w, s)" by auto
    show ?thesis unfolding r residual_of_fields by (cases w; cases s) simp_all
  qed
  have p2: "residual_delta r = Some (- 5)"
    if "r \<in> set rs" "wind_delta r = Some 3 \<and> solar_delta r = Some 2" for r
    using p1 [OF that(1)] that(2) by auto
  have p3: "(\<exists>d\<in>set wind. dr_time d = rd_time r \<and> wind_delta r = fillna0 (delta d))
              \<or> (rd_time r \<notin> dr_time ` set wind \<and> wind_delta r = Some 0)"
    if "r \<in> set rs" for r
  proof -
    from that set_rs obtain t w s where r: "r = residual_of (t, w, s)"
      and c: "(t, w, s) \<in> combined wind solar" by auto
    from combined_wind [OF c] show ?thesis unfolding r residual_of_fields by auto
  qed
  have p4: "(\<exists>d\<in>set solar. dr_time d = rd_time r \<and> solar_delta r = fillna0 (delta d))
              \<or> (rd_time r \<notin> dr_time ` set solar \<and> solar_delta r = Some 0)"
    if "r \<in> set rs" for r
  proof -
    from that set_rs obtain t w s where r: "r = residual_of (t, w, s)"
      and c: "(t, w, s) \<in> combined wind solar" by auto
    from combined_solar [OF c] show ?thesis unfolding r residual_of_fields by auto
  qed
  have p5: "\<exists>r\<in>set rs. rd_time r = dr_time d \<and> wind_delta r = fillna0 (delta d)"
    if "d \<in> set wind" for d
  proof -
    from combined_keeps_wind [OF that] obtain s
      where "(dr_time d, delta d, s) \<in> combined wind solar" by blast
    then have "residual_of (dr_time d, delta d, s) \<in> set rs" unfolding set_rs by blast
    then show ?thesis using residual_of_fields by metis
  qed
  have p6: "\<exists>r\<in>set rs. rd_time r = dr_time d \<and> solar_delta r = fillna0 (delta d)"
    if "d \<in> set solar" for d
  proof -
    from combined_keeps_solar [OF that] obtain w
      where "(dr_time d, w, delta d) \<in> combined wind solar" by blast
    then have "residual_of (dr_time d, w, delta d) \<in> set rs" unfolding set_rs by blast
    then show ?thesis using residual_of_fields by metis
  qed
  from rs p1 p2 p3 p4 p5 p6 show ?thesis by blast
qed

text \<open>
  C5. compute_residual_load_delta always returns a table: it joins the wind and the solar
  delta tables on the timestamp and keeps every timestamp of either table; a side that is missing at a
  timestamp, or whose delta is not-a-number, counts as zero; every row has
  residual_delta = -(wind_delta + solar_delta), so -5 for 3 and 2; when only wind has
  data, every wind row is there with solar_delta 0.
\<close>

theorem residual_load_delta_outer_join:
  "\<exists>wind solar rs.
       compute_forecast_delta db model ''wind'' issue_new issue_old valid_start valid_end
         countries (Some (resolve_location countries location)) = Inr wind
     \<and> compute_forecast_delta db model ''solar'' issue_new issue_old valid_start valid_end
         countries (Some (resolve_location countries location)) = Inr solar
     \<and> compute_residual_load_delta db model issue_new issue_old valid_start valid_end
         countries location = Inr rs
     \<and> (\<forall>r\<in>set rs. \<exists>w s. wind_delta r = Some w \<and> solar_delta r = Some s
                        \<and> residual_delta r = Some (- (w + s)))
     \<and> (\<forall>r\<in>set rs. wind_delta r = Some 3 \<and> solar_delta r = Some 2
                        \<longrightarrow> residual_delta r = Some (- 5))
     \<and> (\<forall>r\<in>set rs. (\<exists>d\<in>set wind. dr_time d = rd_time r \<and> wind_delta r = fillna0 (delta d))
                        \<or> (rd_time r \<notin> dr_time ` set wind \<and> wind_delta r = Some 0))
     \<and> (\<forall>r\<in>set rs. (\<exists>d\<in>set solar. dr_time d = rd_time r \<and> solar_delta r = fillna0 (delta d))
                        \<or> (rd_time r \<notin> dr_time ` set solar \<and> solar_delta r = Some 0))
     \<and> (\<forall>d\<in>set wind. \<exists>r\<in>set rs. rd_time r = dr_time d \<and> wind_delta r = fillna0 (delta d))
     \<and> (\<forall>d\<in>set solar. \<exists>r\<in>set rs. rd_time r = dr_time d \<and> solar_delta r = fillna0 (delta d))"
proof -
  from compute_forecast_delta_total obtain wind where
    w: "compute_forecast_delta db model ''wind'' issue_new issue_old valid_start valid_end
         countries (Some (resolve_location countries location)) = Inr wind" by blast
  from compute_forecast_delta_total obtain solar where
    s: "compute_forecast_delta db model ''solar'' issue_new issue_old valid_start valid_end
         countries (Some (resolve_location countries location)) = Inr solar" by blast
  from residual_load_delta_props [OF w s] w s show ?thesis by blast
qed

theorem residual_load_delta_outer_join_witness:
  "compute_forecast_delta delta_db ''eceps'' ''wind'' 2 1 0 10 None
       (Some (resolve_location None None))
     = Inr [\<lparr>dr_time = 0, old_mean = Some 1, new_mean = Some 4, delta = Some 3,
             delta_pct = Fin (3 / (11 / 10) * 100)\<rparr>,
            \<lparr>dr_time = 1, old_mean = Some 1, new_mean = Some 2, delta = Some 1,
             delta_pct = Fin (1 / (11 / 10) * 100)\<rparr>]
   \<and> compute_forecast_delta delta_db ''eceps'' ''solar'' 2 1 0 10 None
       (Some (resolve_location None None))
     = Inr [\<lparr>dr_time = 0, old_mean = Some 1, new_mean = Some 3, delta = Some 2,
             delta_pct = Fin (2 / (11 / 10) * 100)\<rparr>]
   \<and> (\<exists>rs. compute_residual_load_delta delta_db ''eceps'' 2 1 0 10 None None = Inr rs
          \<and> map rd_time rs = [0, 1]
          \<and> map wind_delta rs = [Some 3, Some 1]
          \<and> map solar_delta rs = [Some 2, Some 0]
          \<and> map residual_delta rs = [Some (- 5), Some (- 1)])"
proof -
  have w: "compute_forecast_delta delta_db ''eceps'' ''wind'' 2 1 0 10 None
       (Some (resolve_location None None))
     = Inr [\<lparr>dr_time = 0, old_mean = Some 1, new_mean = Some 4, delta = Some 3,
             delta_pct = Fin (3 / (11 / 10) * 100)\<rparr>,
            \<lparr>dr_time = 1, old_mean = Some 1, new_mean = Some 2, delta = Some 1,
             delta_pct = Fin (1 / (11 / 10) * 100)\<rparr>]"
    by code_simp
  have s: "compute_forecast_delta delta_db ''eceps'' ''solar'' 2 1 0 10 None
       (Some (resolve_location None None))
     = Inr [\<lparr>dr_time = 0, old_mean = Some 1, new_mean = Some 3, delta = Some 2,
             delta_pct = Fin (2 / (11 / 10) * 100)\<rparr>]"
    by code_simp
  have e: "compute_residual_load_delta delta_db ''eceps'' 2 1 0 10 None None
     = Inr [\<lparr>rd_time = 0, wind_delta = Some 3, solar_delta = Some 2,
             residual_delta = Some (- 5), residual_delta_pct = Some (- 5)\<rparr>,
            \<lparr>rd_time = 1, wind_delta = Some 1, solar_delta = Some 0,
             residual_delta = Some (- 1), residual_delta_pct = Some (- 1)\<rparr>]"
    by code_simp
  from residual_load_delta_outer_join [of delta_db "''eceps''" 2 1 0 10 None None]
  obtain rs where
    "compute_residual_load_delta delta_db ''eceps'' 2 1 0 10 None None = Inr rs" by blast
  with e w s show ?thesis by simp
qed

text \<open>
  C10, amended. compute_residual_load_delta always returns a table, and in every row
  residual_delta_pct is residual_delta divided by 100 and multiplied by 100, each
  operation rounded to binary64. The two operations are the identity in exact arithmetic,
  so the column equals residual_delta up to the rounding: the difference is at most
  2^-51 of the magnitude of residual_delta (plus 2^-1067 for the smallest numbers).
\<close>

theorem residual_delta_pct_rounded:
  "\<exists>rs. compute_residual_load_delta db model issue_new issue_old valid_start valid_end
          countries location = Inr rs
     \<and> (\<forall>r\<in>set rs. \<exists>x.
           residual_delta r = Some x
         \<and> residual_delta_pct r = Some (round_f64 (round_f64 (x / 100) * 100))
         \<and> \<bar>round_f64 (round_f64 (x / 100) * 100) - x\<bar> \<le> \<bar>x\<bar> / 2 ^ 51 + 1 / 2 ^ 1067)"
proof -
  from compute_forecast_delta_total obtain wind where
    w: "compute_forecast_delta db model ''wind'' issue_new issue_old valid_start valid_end
         countries (Some (resolve_location countries location)) = Inr wind" by blast
  from compute_forecast_delta_total obtain solar where
    s: "compute_forecast_delta db model ''solar'' issue_new issue_old valid_start valid_end
         countries (Some (resolve_location countries location)) = Inr solar" by blast
  from residual_load_delta_set [OF w s] obtain rs where
    rs: "compute_residual_load_delta db model issue_new issue_old valid_start valid_end
           countries location = Inr rs"
    and set_rs: "set rs = residual_of ` combined wind solar" by blast
  have "\<exists>x. residual_delta r = Some x
         \<and> residual_delta_pct r = Some (round_f64 (round_f64 (x / 100) * 100))
         \<and> \<bar>round_f64 (round_f64 (x / 100) * 100) - x\<bar> \<le> \<bar>x\<bar> / 2 ^ 51 + 1 / 2 ^ 1067"
    if "r \<in> set rs" for r
  proof -
    from that set_rs obtain c where "r = residual_of c" by auto
    with residual_of_pct [of c] obtain x where
      "residual_delta r = Some x"
      "residual_delta_pct r = Some (round_f64 (round_f64 (x / 100) * 100))" by auto
    with pct_round_err [of x] show ?thesis by blast
  qed
  with rs show ?thesis by blast
qed

theorem residual_delta_pct_rounded_witness:
  "map residual_delta (projr (compute_residual_load_delta delta_db ''eceps'' 2 1 0 10 None None))
     = [Some (- 5), Some (- 1)]
   \<and> map residual_delta_pct
        (projr (compute_residual_load_delta delta_db ''eceps'' 2 1 0 10 None None))
     = [Some (- 5), Some (- 1)]
   \<and> \<bar>round_f64 (round_f64 (- 5 / 100) * 100) - (- 5)\<bar> \<le> \<bar>- 5\<bar> / 2 ^ 51 + 1 / 2 ^ 1067"
proof -
  let ?r0 = "\<lparr>rd_time = 0, wind_delta = Some 3, solar_delta = Some 2,
             residual_delta = Some (- 5), residual_delta_pct = Some (- 5)\<rparr>"
  let ?r1 = "\<lparr>rd_time = 1, wind_delta = Some 1, solar_delta = Some 0,
             residual_delta = Some (- 1), residual_delta_pct = Some (- 1)\<rparr>"
  have e: "compute_residual_load_delta delta_db ''eceps'' 2 1 0 10 None None = Inr [?r0, ?r1]"
    by code_simp
  from residual_delta_pct_rounded [of delta_db "''eceps''" 2 1 0 10 None None]
  have "\<exists>x. residual_delta ?r0 = Some x
         \<and> residual_delta_pct ?r0 = Some (round_f64 (round_f64 (x / 100) * 100))
         \<and> \<bar>round_f64 (round_f64 (x / 100) * 100) - x\<bar> \<le> \<bar>x\<bar> / 2 ^ 51 + 1 / 2 ^ 1067"
    unfolding e by simp
  then have "\<bar>round_f64 (round_f64 (- 5 / 100) * 100) - (- 5)\<bar> \<le> \<bar>- 5\<bar> / 2 ^ 51 + 1 / 2 ^ 1067"
    by auto
  then show ?thesis using e by simp
qed

text \<open>
  C10 as stated fails: for residual_delta 7 the code computes 7.000000000000001, that is
  7 + 2^-50, so residual_delta_pct is not equal to residual_delta.
\<close>

theorem residual_delta_pct_counterexample:
  "map residual_delta (projr (compute_residual_load_delta seven_db ''eceps'' 2 1 0 10 None None))
     = [Some 7]
   \<and> map residual_delta_pct
        (projr (compute_residual_load_delta seven_db ''eceps'' 2 1 0 10 None None))
     = [Some (7 + 1 / 2 ^ 50)]
   \<and> residual_delta_pct
        (hd (projr (compute_residual_load_delta seven_db ''eceps'' 2 1 0 10 None None)))
     \<noteq> residual_delta
        (hd (projr (compute_residual_load_delta seven_db ''eceps'' 2 1 0 10 None None)))"
  by code_simp

section \<open>Column labels\<close>

lemma digit_val_digit_char: "d < 10 \<Longrightarrow> digit_val (digit_char d) = Some d"
proof -
  assume "d < 10"
  then consider "d = 0" | "d = 1" | "d = 2" | "d = 3" | "d = 4" | "d = 5" | "d = 6" | "d = 7"
    | "d = 8" | "d = 9" by atomize_elim arith
  then show ?thesis by cases (simp_all add: digit_val_def digit_char_def)
qed

lemma py_int_acc_snoc:
  "py_int_acc acc (s @ [c]) =
     (case py_int_acc acc s of
        None \<Rightarrow> None
      | Some v \<Rightarrow> (case digit_val c of None \<Rightarrow> None | Some d \<Rightarrow> Some (10 * v + d)))"
  by (induction s arbitrary: acc) (auto split: option.splits)

lemma py_int_acc_str_nat: "py_int_acc 0 (str_nat n) = Some n"
proof (induction n rule: str_nat.induct)
  case (1 n)
  show ?case
  proof (cases "n < 10")
    case True
    then show ?thesis by (subst str_nat.simps) (simp add: digit_val_digit_char)
  next
    case False
    with 1 have "py_int_acc 0 (str_nat (n div 10)) = Some (n div 10)" by simp
    with False show ?thesis
      by (subst str_nat.simps) (simp add: py_int_acc_snoc digit_val_digit_char)
  qed
qed

lemma str_nat_inj: "str_nat a = str_nat b \<Longrightarrow> a = b"
  by (metis py_int_acc_str_nat option.inject)

lemma py_int_acc_zeros: "py_int_acc 0 (replicate k CHR ''0'' @ s) = py_int_acc 0 s"
  by (induction k) (simp_all add: digit_val_def)

lemma py_int_acc_fmt02d: "py_int_acc 0 (fmt02d i) = Some i"
  by (simp add: fmt02d_def Let_def py_int_acc_zeros py_int_acc_str_nat)

lemma fmt02d_inj: "fmt02d a = fmt02d b \<Longrightarrow> a = b"
  by (metis py_int_acc_fmt02d option.inject)

lemma res_col_inj: "res_col a = res_col b \<longleftrightarrow> a = b"
  by (auto simp: res_col_def dest: fmt02d_inj)

lemma pct_col_inj: "pct_col a = pct_col b \<longleftrightarrow> a = b"
  by (auto simp: pct_col_def dest: str_nat_inj)

lemma res_col_not_pct: "res_col i \<noteq> pct_col p"
  by (simp add: res_col_def pct_col_def)

lemma stat_names_not_pct:
  "''ens_mean'' \<noteq> pct_col p" "''ens_std'' \<noteq> pct_col p" "''ens_min'' \<noteq> pct_col p"
  "''ens_max'' \<noteq> pct_col p"
  by (simp_all add: pct_col_def)

lemma res_col_not_stat:
  "res_col i \<noteq> ''ens_mean''"
  by (simp_all add: res_col_def)

section \<open>Percentiles across the members\<close>

lemma percentile_sorted_mono:
  assumes s: "sorted xs" and ne: "xs \<noteq> []" and pq: "p \<le> q" and q: "q \<le> 100"
  shows "percentile_sorted xs p \<le> percentile_sorted xs q"
proof -
  define n where "n = length xs"
  define kp where "kp = (n - 1) * p"
  define kq where "kq = (n - 1) * q"
  define lp where "lp = kp div 100"
  define lq where "lq = kq div 100"
  have n: "0 < n" using ne by (simp add: n_def)
  have kpq: "kp \<le> kq" using pq by (simp add: kp_def kq_def)
  have lpq: "lp \<le> lq" using kpq by (simp add: lp_def lq_def div_le_mono)
  have "kq \<le> (n - 1) * 100" using q by (simp add: kq_def)
  then have lq_le: "lq \<le> n - 1" unfolding lq_def by (metis div_le_mono div_mult_self_is_m zero_less_numeral)
  then have lq_lt: "lq < n" using n by linarith
  have lp_lt: "lp < n" using lpq lq_lt by linarith
  define hp where "hp = min (lp + 1) (n - 1)"
  define hq where "hq = min (lq + 1) (n - 1)"
  have hp_lt: "hp < n" and hq_lt: "hq < n" using n by (simp_all add: hp_def hq_def)
  have lhp: "lp \<le> hp" using lp_lt by (simp add: hp_def)
  have lhq: "lq \<le> hq" using lq_lt by (simp add: hq_def)
  define gp where "gp = real (kp mod 100) / 100"
  define gq where "gq = real (kq mod 100) / 100"
  have gp0: "0 \<le> gp" and gp1: "gp \<le> 1" and gq0: "0 \<le> gq" and gq1: "gq \<le> 1"
    by (simp_all add: gp_def gq_def) 
  have dp: "0 \<le> xs ! hp - xs ! lp"
    using sorted_nth_mono [OF s lhp] hp_lt by (simp add: n_def)
  have dq: "0 \<le> xs ! hq - xs ! lq"
    using sorted_nth_mono [OF s lhq] hq_lt by (simp add: n_def)
  have P: "percentile_sorted xs p = xs ! lp + gp * (xs ! hp - xs ! lp)"
    by (simp add: percentile_sorted_def Let_def n_def kp_def lp_def hp_def gp_def)
  have Q: "percentile_sorted xs q = xs ! lq + gq * (xs ! hq - xs ! lq)"
    by (simp add: percentile_sorted_def Let_def n_def kq_def lq_def hq_def gq_def)
  show ?thesis
  proof (cases "lp = lq")
    case True
    have "kp mod 100 \<le> kq mod 100"
    proof -
      have "kp = 100 * lp + kp mod 100" "kq = 100 * lq + kq mod 100"
        by (simp_all add: lp_def lq_def)
      with kpq True show ?thesis by linarith
    qed
    then have "gp \<le> gq" by (simp add: gp_def gq_def divide_right_mono)
    moreover have "hp = hq" using True by (simp add: hp_def hq_def)
    ultimately show ?thesis unfolding P Q using True dq
      by (simp add: mult_right_mono)
  next
    case False
    with lpq have lt: "lp + 1 \<le> lq" by linarith
    then have "hp = lp + 1" using lq_le by (simp add: hp_def)
    then have "hp \<le> lq" using lt by simp
    then have a: "xs ! hp \<le> xs ! lq" using sorted_nth_mono [OF s _ ] lq_lt by (simp add: n_def)
    have "xs ! lp + gp * (xs ! hp - xs ! lp) \<le> xs ! lp + 1 * (xs ! hp - xs ! lp)"
      using gp1 dp by (intro add_left_mono mult_right_mono) auto
    then have b: "percentile_sorted xs p \<le> xs ! hp" unfolding P by simp
    have c: "xs ! lq \<le> percentile_sorted xs q" unfolding Q using gq0 dq by simp
    from a b c show ?thesis by linarith
  qed
qed

lemma nonnan_empty: "nonnan vs = [] \<longleftrightarrow> (\<forall>v\<in>set vs. v = None)"
  by (induction vs rule: nonnan.induct) auto

lemma percentile_levels_le: "p \<in> set percentile_levels \<Longrightarrow> p \<le> 100"
  by (auto simp: percentile_levels_def)

lemma nanpercentile_mono:
  assumes "p \<le> q" "q \<le> 100" "\<exists>v\<in>set vs. v \<noteq> None"
  shows "fle (nanpercentile vs p) (nanpercentile vs q)"
proof -
  from assms(3) have ne: "sort (nonnan vs) \<noteq> []"
    by (metis nonnan_empty length_sort length_0_conv)
  then show ?thesis
    using percentile_sorted_mono [OF sorted_sort ne assms(1) assms(2)]
    by (simp add: nanpercentile_def Let_def)
qed

lemma nanpercentile_all_nan: "\<forall>v\<in>set vs. v = None \<Longrightarrow> nanpercentile vs p = None"
  by (simp add: nanpercentile_def Let_def nonnan_empty[symmetric])

section \<open>Residual load per member\<close>

lemma map_of_map_inj:
  "inj g \<Longrightarrow> map_of (map (\<lambda>i. (g i, f i)) xs) (g i) = (if i \<in> set xs then Some (f i) else None)"
  by (induction xs) (auto dest: injD)

lemma map_of_map_notin:
  "(\<And>j. g j \<noteq> k) \<Longrightarrow> map_of (map (\<lambda>i. (g i, f i)) xs) k = None"
  by (induction xs) auto

lemma inj_res_col: "inj res_col"
  by (simp add: inj_def res_col_inj)

lemma inj_pct_col: "inj pct_col"
  by (simp add: inj_def pct_col_inj)

lemma cell_residual_row_res:
  "i \<in> set ens_ids \<Longrightarrow>
     cell (residual_row ens_ids m) (res_col i)
       = fsub (cell m ''consumption_mw'') (cell m (ren_col i))"
  by (simp add: cell_def residual_row_def Let_def residual_cells_def map_of_map_inj [OF inj_res_col] map_add_def)

lemma cell_residual_row_pct:
  "ens_ids \<noteq> [] \<Longrightarrow> p \<in> set percentile_levels \<Longrightarrow>
     cell (residual_row ens_ids m) (pct_col p)
       = nanpercentile (map snd (residual_cells ens_ids m)) p"
proof -
  assume a: "ens_ids \<noteq> []" "p \<in> set percentile_levels"
  have 1: "map_of (residual_cells ens_ids m) (pct_col p) = None"
    unfolding residual_cells_def by (rule map_of_map_notin) (simp add: res_col_not_pct)
  have 2: "map_of (stat_cells vals) (pct_col p) = Some (nanpercentile vals p)" for vals
    using a(2) stat_names_not_pct [of p]
    by (simp add: stat_cells_def map_of_map_inj [OF inj_pct_col] map_add_def)
  show ?thesis using a(1) 1 2
    by (simp add: cell_def residual_row_def Let_def map_add_def)
qed


lemma compute_residual_scenarios_Inr:
  assumes "compute_residual_scenarios consumption ren_ens model = Inr out"
  shows "out = DataFrame0 \<or>
     (\<exists>cfg. AVAILABLE_MODELS model = Some cfg
        \<and> rows (merge_inner consumption ren_ens) \<noteq> []
        \<and> columns out = ''utc_datetime''
                     # map res_col (matched_members (n_members cfg) (merge_inner consumption ren_ens))
                     @ (if matched_members (n_members cfg) (merge_inner consumption ren_ens) \<noteq> []
                        then stat_columns else [])
        \<and> rows out = map (residual_row (matched_members (n_members cfg)
                                (merge_inner consumption ren_ens)))
                           (rows (merge_inner consumption ren_ens)))"
proof (cases "AVAILABLE_MODELS model")
  case None
  with assms show ?thesis
    by (simp add: compute_residual_scenarios_def Let_def split: if_splits)
next
  case (Some cfg)
  define merged where "merged = merge_inner consumption ren_ens"
  define ids where "ids = matched_members (n_members cfg) merged"
  from assms Some have
    "out = DataFrame0 \<or>
       (rows merged \<noteq> [] \<and>
        out = \<lparr>columns = ''utc_datetime'' # map res_col ids
                            @ (if ids \<noteq> [] then stat_columns else []),
               rows = map (residual_row ids) (rows merged)\<rparr>)"
    by (auto simp: compute_residual_scenarios_def Let_def df_empty_def merged_def ids_def
          split: if_splits)
  then show ?thesis
  proof
    assume "out = DataFrame0" then show ?thesis by simp
  next
    assume a: "rows merged \<noteq> [] \<and>
        out = \<lparr>columns = ''utc_datetime'' # map res_col ids
                            @ (if ids \<noteq> [] then stat_columns else []),
               rows = map (residual_row ids) (rows merged)\<rparr>"
    then have "columns out = ''utc_datetime'' # map res_col ids
                            @ (if ids \<noteq> [] then stat_columns else [])"
      and "rows out = map (residual_row ids) (rows merged)"
      by simp_all
    with a Some show ?thesis unfolding merged_def ids_def by blast
  qed
qed

lemma timestamps_merge_inner:
  "timestamps (merge_inner l r) = map fst (inner_join (rows l) (rows r))"
  by (simp add: timestamps_def merge_inner_def split_def comp_def)

lemma inner_join_keys:
  "set (map fst (inner_join l r)) = fst ` set l \<inter> fst ` set r"
  by (force simp: inner_join_def)

lemma inner_join_Cons:
  "inner_join (a # l) r
     = map (\<lambda>b. (fst a, snd a, snd b)) (filter (\<lambda>b. fst b = fst a) r) @ inner_join l r"
  by (simp add: inner_join_def)

lemma filter_key_distinct:
  "distinct (map fst r) \<Longrightarrow> length (filter (\<lambda>b. fst b = k) r) \<le> 1"
  by (induction r) (auto simp: filter_empty_conv image_iff)

lemma inner_join_length_left:
  "distinct (map fst r) \<Longrightarrow> length (inner_join l r) \<le> length l"
proof (induction l)
  case Nil
  then show ?case by (simp add: inner_join_def)
next
  case (Cons a l)
  from filter_key_distinct [OF Cons.prems, of "fst a"] Cons.IH [OF Cons.prems]
  show ?case by (simp add: inner_join_Cons)
qed

lemma inner_join_drop_key:
  "k \<notin> fst ` set l \<Longrightarrow> inner_join l (filter (\<lambda>b. fst b \<noteq> k) r) = inner_join l r"
proof (induction l)
  case Nil
  then show ?case by (simp add: inner_join_def)
next
  case (Cons a l)
  then have "fst a \<noteq> k" by auto
  then have "filter (\<lambda>b. fst b = fst a) (filter (\<lambda>b. fst b \<noteq> k) r)
               = filter (\<lambda>b. fst b = fst a) r"
    by (auto intro: filter_cong)
  with Cons show ?case by (simp add: inner_join_Cons)
qed

lemma inner_join_length_right:
  "distinct (map fst l) \<Longrightarrow> length (inner_join l r) \<le> length r"
proof (induction l arbitrary: r)
  case Nil
  then show ?case by (simp add: inner_join_def)
next
  case (Cons a l)
  then have k: "fst a \<notin> fst ` set l" and d: "distinct (map fst l)" by auto
  have "length (inner_join l r) = length (inner_join l (filter (\<lambda>b. fst b \<noteq> fst a) r))"
    by (simp add: inner_join_drop_key [OF k])
  also have "\<dots> \<le> length (filter (\<lambda>b. fst b \<noteq> fst a) r)" by (rule Cons.IH [OF d])
  finally have "length (inner_join (a # l) r)
      \<le> length (filter (\<lambda>b. fst b = fst a) r) + length (filter (\<lambda>b. fst b \<noteq> fst a) r)"
    by (simp add: inner_join_Cons)
  also have "\<dots> = length r" using sum_length_filter_compl [of "\<lambda>b. fst b = fst a" r] by simp
  finally show ?case .
qed

lemma timestamps_out:
  assumes "compute_residual_scenarios consumption ren_ens model = Inr out"
  shows "timestamps out = [] \<or> timestamps out = map fst (inner_join (rows consumption) (rows ren_ens))"
  using compute_residual_scenarios_Inr [OF assms]
  by (auto simp: timestamps_def DataFrame0_def residual_row_def Let_def comp_def
        merge_inner_def split_def)











text \<open>
  C7, amended. The timestamps of the result occur in both inputs. When each input has one
  row per timestamp, the invariant of the data model that \<open>update\<close> establishes, the
  result has at most as many rows as the smaller input; one row per timestamp on one side
  alone bounds the rows by the row count of the other side.
\<close>

theorem inner_join_residual_rows:
  assumes "compute_residual_scenarios consumption ren_ens model = Inr out"
  shows "set (timestamps out) \<subseteq> set (timestamps consumption) \<inter> set (timestamps ren_ens)
       \<and> (distinct (timestamps ren_ens) \<longrightarrow> length (rows out) \<le> length (rows consumption))
       \<and> (distinct (timestamps consumption) \<longrightarrow> length (rows out) \<le> length (rows ren_ens))
       \<and> (distinct (timestamps consumption) \<and> distinct (timestamps ren_ens) \<longrightarrow>
            length (rows out) \<le> min (length (rows consumption)) (length (rows ren_ens)))"
proof -
  have len: "length (rows out) = length (timestamps out)" by (simp add: timestamps_def)
  from timestamps_out [OF assms] show ?thesis
  proof
    assume "timestamps out = []"
    then show ?thesis using len by simp
  next
    assume t: "timestamps out = map fst (inner_join (rows consumption) (rows ren_ens))"
    have 1: "set (timestamps out) \<subseteq> set (timestamps consumption) \<inter> set (timestamps ren_ens)"
      unfolding t inner_join_keys by (simp add: timestamps_def)
    have "length (timestamps out) = length (map fst (inner_join (rows consumption) (rows ren_ens)))"
      by (simp only: t)
    then have len_out: "length (rows out) = length (inner_join (rows consumption) (rows ren_ens))"
      using len by simp
    have 2: "length (rows out) \<le> length (rows consumption)" if "distinct (timestamps ren_ens)"
      using inner_join_length_left [of "rows ren_ens" "rows consumption"] that
      by (simp add: len_out timestamps_def)
    have 3: "length (rows out) \<le> length (rows ren_ens)" if "distinct (timestamps consumption)"
      using inner_join_length_right [of "rows consumption" "rows ren_ens"] that
      by (simp add: len_out timestamps_def)
    from 1 2 3 show ?thesis by simp
  qed
qed


theorem inner_join_residual_rows_witness:
  "distinct (timestamps cons4) \<and> distinct (timestamps ren4)
   \<and> length (rows (projr (compute_residual_scenarios cons4 ren4 ''eceps''))) = 4
   \<and> length (rows (projr (compute_residual_scenarios cons4 ren4 ''eceps'')))
        \<le> min (length (rows cons4)) (length (rows ren4))
   \<and> set (timestamps (projr (compute_residual_scenarios cons4 ren4 ''eceps'')))
        \<subseteq> set (timestamps cons4) \<inter> set (timestamps ren4)"
proof -
  have e: "compute_residual_scenarios cons4 ren4 ''eceps''
             = Inr (projr (compute_residual_scenarios cons4 ren4 ''eceps''))"
    by code_simp
  have d: "distinct (timestamps cons4) \<and> distinct (timestamps ren4)" by code_simp
  have n: "length (rows (projr (compute_residual_scenarios cons4 ren4 ''eceps''))) = 4"
    by code_simp
  from inner_join_residual_rows [OF e] d n show ?thesis by blast
qed

text \<open>
  C7 as stated fails: a timestamp with two rows on each side gives four rows, more than
  the two rows of either input.
\<close>

theorem inner_join_row_bound_counterexample:
  "length (rows cons_dup) = 2 \<and> length (rows ren_dup) = 2
   \<and> length (rows (projr (compute_residual_scenarios cons_dup ren_dup ''eceps''))) = 4
   \<and> \<not> length (rows (projr (compute_residual_scenarios cons_dup ren_dup ''eceps'')))
          \<le> min (length (rows cons_dup)) (length (rows ren_dup))"
  by code_simp

text \<open>
  C6, amended. In every row of the result with at least one member residual that is a
  number, the percentile columns do not decrease with the level: ens_P0 \<le> ens_P5 \<le> ...
  \<le> ens_P100. In a row whose member residuals are all not-a-number every percentile is
  not-a-number, and no comparison between them holds.
\<close>

theorem percentiles_monotone:
  assumes out: "compute_residual_scenarios consumption ren_ens model = Inr out"
    and r: "r \<in> set (rows out)"
    and cols: "pct_col p \<in> set (columns out)"
    and p: "p \<in> set percentile_levels" and q: "q \<in> set percentile_levels" and pq: "p \<le> q"
  shows "((\<exists>i. res_col i \<in> set (columns out) \<and> cell r (res_col i) \<noteq> None)
            \<longrightarrow> fle (cell r (pct_col p)) (cell r (pct_col q)))
       \<and> ((\<forall>i. res_col i \<in> set (columns out) \<longrightarrow> cell r (res_col i) = None)
            \<longrightarrow> cell r (pct_col p) = None \<and> cell r (pct_col q) = None)"
proof -
  have "out \<noteq> DataFrame0" using cols by (auto simp: DataFrame0_def)
  with compute_residual_scenarios_Inr [OF out] have
    "\<exists>cfg. AVAILABLE_MODELS model = Some cfg
        \<and> rows (merge_inner consumption ren_ens) \<noteq> []
        \<and> columns out = ''utc_datetime''
                     # map res_col (matched_members (n_members cfg) (merge_inner consumption ren_ens))
                     @ (if matched_members (n_members cfg) (merge_inner consumption ren_ens) \<noteq> []
                        then stat_columns else [])
        \<and> rows out = map (residual_row (matched_members (n_members cfg)
                                (merge_inner consumption ren_ens)))
                           (rows (merge_inner consumption ren_ens))"
    by simp
  then obtain cfg :: model_config where
    oc: "columns out = ''utc_datetime''
                     # map res_col (matched_members (n_members cfg) (merge_inner consumption ren_ens))
                     @ (if matched_members (n_members cfg) (merge_inner consumption ren_ens) \<noteq> []
                        then stat_columns else [])"
    and orow: "rows out = map (residual_row (matched_members (n_members cfg)
                                (merge_inner consumption ren_ens)))
                           (rows (merge_inner consumption ren_ens))"
    by blast
  define ids where "ids = matched_members (n_members cfg) (merge_inner consumption ren_ens)"
  from cols have ne: "ids \<noteq> []"
    unfolding oc ids_def [symmetric] by (auto simp: pct_col_def res_col_def split: if_splits)
  from r obtain m where rm: "r = residual_row ids m" unfolding orow ids_def by auto
  define vals where "vals = map snd (residual_cells ids m)"
  have cp: "cell r (pct_col p) = nanpercentile vals p" and cq: "cell r (pct_col q) = nanpercentile vals q"
    unfolding rm vals_def using ne p q by (simp_all add: cell_residual_row_pct)
  have mem: "res_col i \<in> set (columns out) \<longleftrightarrow> i \<in> set ids" for i
    unfolding oc ids_def [symmetric] using ne
    by (auto simp: stat_columns_def res_col_def pct_col_def dest: fmt02d_inj)
  have vals_set: "set vals = (\<lambda>i. cell r (res_col i)) ` set ids"
  proof -
    have "map snd (residual_cells ids m) = map (\<lambda>i. cell r (res_col i)) ids"
      unfolding rm by (simp add: residual_cells_def comp_def cell_residual_row_res [symmetric]
          del: fsub.simps)
    then show ?thesis by (simp add: vals_def)
  qed
  have A: "fle (cell r (pct_col p)) (cell r (pct_col q))"
    if "\<exists>i. res_col i \<in> set (columns out) \<and> cell r (res_col i) \<noteq> None"
  proof -
    from that have "\<exists>v\<in>set vals. v \<noteq> None" unfolding vals_set mem by auto
    with nanpercentile_mono [OF pq percentile_levels_le [OF q]] show ?thesis
      unfolding cp cq by blast
  qed
  have B: "cell r (pct_col p) = None \<and> cell r (pct_col q) = None"
    if "\<forall>i. res_col i \<in> set (columns out) \<longrightarrow> cell r (res_col i) = None"
  proof -
    from that have "\<forall>v\<in>set vals. v = None" unfolding vals_set mem by auto
    then show ?thesis unfolding cp cq by (simp add: nanpercentile_all_nan)
  qed
  from A B show ?thesis by blast
qed


theorem percentiles_monotone_witness:
  "fle (cell (hd (rows (projr (compute_residual_scenarios cons4 ren4 ''eceps'')))) (pct_col 0))
       (cell (hd (rows (projr (compute_residual_scenarios cons4 ren4 ''eceps'')))) (pct_col 50))
   \<and> column_values (projr (compute_residual_scenarios cons4 ren4 ''eceps'')) ''ens_P0''
        = [Some 80, Some 90, Some 100, Some 110]
   \<and> column_values (projr (compute_residual_scenarios cons4 ren4 ''eceps'')) ''ens_P100''
        = [Some 90, Some 100, Some 110, Some 120]"
proof -
  let ?out = "projr (compute_residual_scenarios cons4 ren4 ''eceps'')"
  have e: "compute_residual_scenarios cons4 ren4 ''eceps'' = Inr ?out" by code_simp
  have r: "hd (rows ?out) \<in> set (rows ?out)" by code_simp
  have c: "pct_col 0 \<in> set (columns ?out)" by code_simp
  have p: "0 \<in> set percentile_levels" and q: "50 \<in> set percentile_levels" by code_simp+
  have pq: "(0::nat) \<le> 50" by simp
  have x: "\<exists>i. res_col i \<in> set (columns ?out) \<and> cell (hd (rows ?out)) (res_col i) \<noteq> None"
  proof (intro exI [of _ 1])
    show "res_col 1 \<in> set (columns ?out) \<and> cell (hd (rows ?out)) (res_col 1) \<noteq> None"
      by code_simp
  qed
  have v0: "column_values ?out ''ens_P0'' = [Some 80, Some 90, Some 100, Some 110]"
    by code_simp
  have v100: "column_values ?out ''ens_P100'' = [Some 90, Some 100, Some 110, Some 120]"
    by code_simp
  from percentiles_monotone [OF e r c p q pq] x v0 v100 show ?thesis by blast
qed

text \<open>
  C6 as stated fails on a row without a number: with consumption not-a-number the only
  residual is not-a-number, so are ens_P0 and ens_P5, and ens_P0 \<le> ens_P5 is false.
\<close>

theorem percentiles_all_nan_counterexample:
  "pct_col 0 = ''ens_P0'' \<and> pct_col 5 = ''ens_P5''
   \<and> ''ens_P0'' \<in> set (columns (projr (compute_residual_scenarios cons_nan ren1 ''eceps'')))
   \<and> ''ens_P5'' \<in> set (columns (projr (compute_residual_scenarios cons_nan ren1 ''eceps'')))
   \<and> length (rows (projr (compute_residual_scenarios cons_nan ren1 ''eceps''))) = 1
   \<and> column_values (projr (compute_residual_scenarios cons_nan ren1 ''eceps'')) ''residual_ens_01''
        = [None]
   \<and> column_values (projr (compute_residual_scenarios cons_nan ren1 ''eceps'')) ''ens_P0'' = [None]
   \<and> column_values (projr (compute_residual_scenarios cons_nan ren1 ''eceps'')) ''ens_P5'' = [None]
   \<and> \<not> fle (cell (hd (rows (projr (compute_residual_scenarios cons_nan ren1 ''eceps''))))
               ''ens_P0'')
            (cell (hd (rows (projr (compute_residual_scenarios cons_nan ren1 ''eceps''))))
               ''ens_P5'')"
  by code_simp

section \<open>Ensemble fetch\<close>

text \<open>
  C8, amended. When get_ensemble_forecasts finds no issue, or, for a configured model, the
  member query fails or matches no row, it returns the empty DataFrame, a table and not
  None, that has no column at all: no timestamp column.
\<close>

theorem ensemble_fetch_empty:
  assumes "(issue = None \<and> get_latest_issue db model element None = None)
         \<or> (\<exists>i cfg. (case issue of None \<Rightarrow> get_latest_issue db model element None
                                 | Some i \<Rightarrow> Some i) = Some i
                     \<and> AVAILABLE_MODELS model = Some cfg
                     \<and> (ensemble_rows db (or_country location) model element i
                            (map str_nat [1..<n_members cfg + 1]) = QError
                        \<or> ensemble_rows db (or_country location) model element i
                            (map str_nat [1..<n_members cfg + 1]) = QRows []))"
  shows "get_ensemble_forecasts db model element issue location = Inr \<lparr>columns = [], rows = []\<rparr>"
  using assms
  by (auto simp: get_ensemble_forecasts_def Let_def DataFrame0_def split: option.splits)


theorem ensemble_fetch_empty_witness:
  "get_latest_issue empty_db ''eceps'' ''wind'' None = None
   \<and> get_ensemble_forecasts empty_db ''eceps'' ''wind'' None None
        = Inr \<lparr>columns = [], rows = []\<rparr>
   \<and> get_ensemble_forecasts empty_db ''eceps'' ''wind'' (Some 1) (Some ''FR'')
        = Inr \<lparr>columns = [], rows = []\<rparr>"
proof -
  have a: "get_latest_issue empty_db ''eceps'' ''wind'' None = None" by code_simp
  have h1: "((None :: int option) = None \<and> get_latest_issue empty_db ''eceps'' ''wind'' None = None)
         \<or> (\<exists>i cfg. (case (None :: int option) of
                         None \<Rightarrow> get_latest_issue empty_db ''eceps'' ''wind'' None
                       | Some i \<Rightarrow> Some i) = Some i
                     \<and> AVAILABLE_MODELS ''eceps'' = Some cfg
                     \<and> (ensemble_rows empty_db (or_country None) ''eceps'' ''wind'' i
                            (map str_nat [1..<n_members cfg + 1]) = QError
                        \<or> ensemble_rows empty_db (or_country None) ''eceps'' ''wind'' i
                            (map str_nat [1..<n_members cfg + 1]) = QRows []))"
    using a by simp
  have cfg: "AVAILABLE_MODELS ''eceps''
               = Some \<lparr>label = ''ECMWF ENS (eceps)'',
                       description = ''ECMWF Ensemble - 50 members, 15-day horizon'',
                       n_members = 50\<rparr>"
    by (simp add: AVAILABLE_MODELS_def)
  have h2: "(Some (1::int) = None \<and> get_latest_issue empty_db ''eceps'' ''wind'' None = None)
         \<or> (\<exists>i cfg. (case Some (1::int) of
                         None \<Rightarrow> get_latest_issue empty_db ''eceps'' ''wind'' None
                       | Some i \<Rightarrow> Some i) = Some i
                     \<and> AVAILABLE_MODELS ''eceps'' = Some cfg
                     \<and> (ensemble_rows empty_db (or_country (Some ''FR'')) ''eceps'' ''wind'' i
                            (map str_nat [1..<n_members cfg + 1]) = QError
                        \<or> ensemble_rows empty_db (or_country (Some ''FR'')) ''eceps'' ''wind'' i
                            (map str_nat [1..<n_members cfg + 1]) = QRows []))"
    using cfg by (simp add: empty_db_def)
  from ensemble_fetch_empty [OF h1] ensemble_fetch_empty [OF h2] a show ?thesis by simp
qed

text \<open>
  C8 as stated fails: without an issue, and with an issue that has no row, the table
  returned has no \<open>utc_datetime\<close> column.
\<close>

theorem ensemble_fetch_empty_counterexample:
  "get_ensemble_forecasts empty_db ''eceps'' ''wind'' None None = Inr DataFrame0
   \<and> df_empty (projr (get_ensemble_forecasts empty_db ''eceps'' ''wind'' None None))
   \<and> ''utc_datetime'' \<notin> set (columns (projr (get_ensemble_forecasts empty_db ''eceps'' ''wind''
                                         None None)))
   \<and> get_ensemble_forecasts empty_db ''eceps'' ''wind'' (Some 1) None = Inr DataFrame0
   \<and> ''utc_datetime'' \<notin> set (columns (projr (get_ensemble_forecasts empty_db ''eceps'' ''wind''
                                         (Some 1) None)))"
  by code_simp

text \<open>
  C3. With wind members and no solar row, get_renewable_ensembles returns the wind table
  under its \<open>wind_\<close> labels before the summation: it has no \<open>total_ren_ens_i\<close> column,
  and _compute_residual_scenarios then matches no member and returns the timestamps only.
\<close>

theorem wind_only_has_no_totals:
  "get_ensemble_forecasts wind_only_db ''eceps'' ''solar'' None (Some ''FR'') = Inr DataFrame0
   \<and> get_ensemble_forecasts wind_only_db ''eceps'' ''wind'' None (Some ''FR'')
        = Inr \<lparr>columns = [''utc_datetime'', ''ens_01'', ''ens_02''],
                rows = [(0, [(''ens_01'', Some 5), (''ens_02'', Some 7)])]\<rparr>
   \<and> get_renewable_ensembles wind_only_db ''eceps'' None (Some ''FR'')
        = Inr \<lparr>columns = [''utc_datetime'', ''wind_ens_01'', ''wind_ens_02''],
                rows = [(0, [(''wind_ens_01'', Some 5), (''wind_ens_02'', Some 7)])]\<rparr>
   \<and> ren_col 1 = ''total_ren_ens_01''
   \<and> ren_col 1 \<notin> set (columns (projr (get_renewable_ensembles wind_only_db ''eceps'' None
                                         (Some ''FR''))))
   \<and> compute_residual_scenarios cons1
         (projr (get_renewable_ensembles wind_only_db ''eceps'' None (Some ''FR''))) ''eceps''
        = Inr \<lparr>columns = [''utc_datetime''], rows = [(0, [])]\<rparr>
   \<and> res_col 1 = ''residual_ens_01''
   \<and> res_col 1 \<notin> set (columns (projr (compute_residual_scenarios cons1
         (projr (get_renewable_ensembles wind_only_db ''eceps'' None (Some ''FR''))) ''eceps'')))"
  by code_simp


theorem wind_only_has_no_totals_witness:
  "ren_col 1 \<notin> set (columns (projr (get_renewable_ensembles wind_only_db ''eceps'' None
                                       (Some ''FR''))))
   \<and> res_col 1 \<notin> set (columns (projr (compute_residual_scenarios cons1
         (projr (get_renewable_ensembles wind_only_db ''eceps'' None (Some ''FR''))) ''eceps'')))"
  using wind_only_has_no_totals by blast

section \<open>Update with an unavailable source\<close>

lemma pivot_table_has_ts: "pivot_table lr = Inr p \<Longrightarrow> ''utc_datetime'' \<in> set (columns p)"
  by (auto simp: pivot_table_def Let_def split: if_splits)

lemma rename_columns_has_ts:
  "''utc_datetime'' \<in> set (columns df) \<Longrightarrow> ''utc_datetime'' \<in> set (columns (rename_columns f df))"
  by (force simp: rename_columns_def)

lemma get_ensemble_forecasts_has_ts:
  assumes "get_ensemble_forecasts db model element issue location = Inr df"
  shows "df = DataFrame0 \<or> ''utc_datetime'' \<in> set (columns df)"
  using assms
  by (auto simp: get_ensemble_forecasts_def Let_def sort_values_def
        dest!: pivot_table_has_ts intro: rename_columns_has_ts
        split: option.splits qres.splits if_splits sum.splits)

lemma assign_has_ts:
  "''utc_datetime'' \<in> set (columns df) \<Longrightarrow> ''utc_datetime'' \<in> set (columns (assign df c f))"
  by (simp add: assign_def)

lemma add_totals_has_ts:
  "''utc_datetime'' \<in> set (columns df) \<Longrightarrow> ''utc_datetime'' \<in> set (columns (add_totals n df))"
proof -
  have "''utc_datetime'' \<in> set (columns d) \<Longrightarrow>
        ''utc_datetime'' \<in> set (columns (foldl (\<lambda>d i.
            if wind_col i \<in> set (columns d) \<and> solar_col i \<in> set (columns d)
            then assign d (ren_col i) (\<lambda>r. fadd (cell r (wind_col i)) (cell r (solar_col i)))
            else d) d xs))" for d xs
    by (induction xs arbitrary: d) (simp_all add: assign_has_ts)
  then show "''utc_datetime'' \<in> set (columns df) \<Longrightarrow> ?thesis"
    unfolding add_totals_def by blast
qed

lemma merge_outer_has_ts:
  "''utc_datetime'' \<in> set (columns l) \<Longrightarrow> ''utc_datetime'' \<in> set (columns (merge_outer l r))"
proof -
  assume "''utc_datetime'' \<in> set (columns l)"
  moreover have "suffixed ''_x'' (columns r) ''utc_datetime'' = ''utc_datetime''"
    by (simp add: suffixed_def)
  ultimately have "''utc_datetime'' \<in> suffixed ''_x'' (columns r) ` set (columns l)"
    by (metis imageI)
  then show ?thesis by (simp add: merge_outer_def merged_columns_def)
qed

lemma get_renewable_ensembles_has_ts:
  assumes "get_renewable_ensembles db model issue location = Inr df" and "\<not> df_empty df"
  shows "''utc_datetime'' \<in> set (columns df)"
proof -
  from assms(1) obtain wind solar where
    w: "get_ensemble_forecasts db model ''wind'' issue location = Inr wind"
    and s: "get_ensemble_forecasts db model ''solar'' issue location = Inr solar"
    by (auto simp: get_renewable_ensembles_def split: sum.splits)
  have wt: "\<not> df_empty wind \<Longrightarrow> ''utc_datetime'' \<in> set (columns wind)"
    using get_ensemble_forecasts_has_ts [OF w] by (auto simp: DataFrame0_def df_empty_def)
  have st: "\<not> df_empty solar \<Longrightarrow> ''utc_datetime'' \<in> set (columns solar)"
    using get_ensemble_forecasts_has_ts [OF s] by (auto simp: DataFrame0_def df_empty_def)
  have e0: "df_empty DataFrame0" by (simp add: df_empty_def DataFrame0_def)
  define wr where "wr = (if \<not> df_empty wind then rename_columns (\<lambda>c. ''wind_'' @ c) wind
                         else DataFrame0)"
  define sr where "sr = (if \<not> df_empty solar then rename_columns (\<lambda>c. ''solar_'' @ c) solar
                         else DataFrame0)"
  have wrt: "\<not> df_empty wr \<Longrightarrow> ''utc_datetime'' \<in> set (columns wr)"
    using wt e0 by (auto simp: wr_def rename_columns_has_ts split: if_splits)
  have srt: "\<not> df_empty sr \<Longrightarrow> ''utc_datetime'' \<in> set (columns sr)"
    using st e0 by (auto simp: sr_def rename_columns_has_ts split: if_splits)
  have "Inr df =
      (if df_empty wind \<and> df_empty solar then Inr DataFrame0
       else if df_empty wr then Inr sr
       else if df_empty sr then Inr wr
       else (case AVAILABLE_MODELS model of
               None \<Rightarrow> Inl KeyError
             | Some cfg \<Rightarrow> Inr (add_totals (n_members cfg) (fillna_zero (merge_outer wr sr)))))"
    using assms(1) unfolding get_renewable_ensembles_def w s wr_def sr_def Let_def by simp
  then have
    "df = DataFrame0 \<or> (df_empty wr \<and> df = sr) \<or> (df_empty sr \<and> df = wr)
      \<or> (\<not> df_empty wr \<and> (\<exists>n. df = add_totals n (fillna_zero (merge_outer wr sr))))"
    by (auto split: if_splits option.splits)
  then show ?thesis
  proof (elim disjE conjE exE)
    assume "df = DataFrame0" with assms(2) e0 show ?thesis by simp
  next
    assume "df = sr" with assms(2) srt show ?thesis by simp
  next
    assume "df = wr" with assms(2) wrt show ?thesis by simp
  next
    fix n assume a: "\<not> df_empty wr" "df = add_totals n (fillna_zero (merge_outer wr sr))"
    have "''utc_datetime'' \<in> set (columns (fillna_zero (merge_outer wr sr)))"
      using merge_outer_has_ts [OF wrt [OF a(1)]] by (simp add: fillna_zero_def)
    then show ?thesis unfolding a(2) by (rule add_totals_has_ts)
  qed
qed

lemma fetch_renewables_all_empty:
  "(\<forall>c\<in>set cs. \<exists>df. get_renewable_ensembles db model issue (Some (upper c)) = Inr df
                     \<and> df_empty df)
     \<Longrightarrow> fetch_renewables db model issue cs = Inr []"
  by (induction cs) auto

lemma fetch_renewables_ok:
  "(\<forall>c\<in>set cs. \<exists>df. get_renewable_ensembles db model issue (Some (upper c)) = Inr df)
     \<Longrightarrow> \<exists>dfs. fetch_renewables db model issue cs = Inr dfs
            \<and> (\<forall>df\<in>set dfs. ''utc_datetime'' \<in> set (columns df))"
proof (induction cs)
  case Nil
  then show ?case by simp
next
  case (Cons c cs)
  then obtain df where df: "get_renewable_ensembles db model issue (Some (upper c)) = Inr df"
    by auto
  from Cons obtain dfs where dfs: "fetch_renewables db model issue cs = Inr dfs"
    and ts: "\<forall>df\<in>set dfs. ''utc_datetime'' \<in> set (columns df)" by auto
  show ?case using df dfs ts get_renewable_ensembles_has_ts [OF df] by auto
qed

lemma aggregate_renewables_ok:
  "(\<forall>df\<in>set dfs. ''utc_datetime'' \<in> set (columns df))
     \<Longrightarrow> \<exists>r. aggregate_renewables acc dfs = Inr r"
  by (induction dfs arbitrary: acc) (auto simp: set_index_def)

lemma aggregate_renewables_Some:
  "aggregate_renewables (Some a) dfs = Inr r \<Longrightarrow> r \<noteq> None"
  by (induction dfs arbitrary: a) (auto split: sum.splits)

lemma aggregate_renewables_table:
  "dfs \<noteq> [] \<Longrightarrow> aggregate_renewables None dfs = Inr r \<Longrightarrow> r \<noteq> None"
  by (cases dfs) (auto split: sum.splits dest: aggregate_renewables_Some)

lemma fetch_consumption_all_empty:
  "(\<forall>c\<in>set cs. df_empty (get_eq_consumption db issue (Some (lower c))))
     \<Longrightarrow> fetch_consumption db issue cs = []"
  by (auto simp: fetch_consumption_def filter_empty_conv)

lemma update_aborts:
  assumes "(\<forall>c\<in>set (requested countries).
              \<exists>df. get_renewable_ensembles db model issue (Some (upper c)) = Inr df \<and> df_empty df)
         \<or> ((\<forall>c\<in>set (requested countries).
                \<exists>df. get_renewable_ensembles db model issue (Some (upper c)) = Inr df)
            \<and> (\<forall>c\<in>set (requested countries).
                  df_empty (get_eq_consumption db issue (Some (lower c)))))"
  shows "update db clock eng model issue countries
           = (Inr EmptyBundle, eng\<lparr>current_model := Some model\<rparr>, [])"
proof -
  define cs where "cs = requested countries"
  have u: "update db clock eng model issue countries =
     (case fetch_renewables db model issue cs of
           Inl e \<Rightarrow> (Inl e, eng\<lparr>current_model := Some model\<rparr>, [])
         | Inr ren_list \<Rightarrow>
            (if ren_list = [] then (Inr EmptyBundle, eng\<lparr>current_model := Some model\<rparr>, [])
             else
               (case aggregate_renewables None ren_list of
                  Inl e \<Rightarrow> (Inl e, eng\<lparr>current_model := Some model\<rparr>, [])
                | Inr None \<Rightarrow> (Inl AttributeError, eng\<lparr>current_model := Some model\<rparr>, [])
                | Inr (Some ren_agg) \<Rightarrow>
                    update_consumption db clock (eng\<lparr>current_model := Some model\<rparr>) model issue
                      cs (reset_index ren_agg))))"
    unfolding cs_def requested_def update_def Let_def by (rule refl)
  from assms show ?thesis
  proof
    assume "\<forall>c\<in>set (requested countries).
              \<exists>df. get_renewable_ensembles db model issue (Some (upper c)) = Inr df \<and> df_empty df"
    then have "fetch_renewables db model issue cs = Inr []"
      unfolding cs_def by (rule fetch_renewables_all_empty)
    then show ?thesis by (simp add: u)
  next
    assume a: "(\<forall>c\<in>set (requested countries).
                \<exists>df. get_renewable_ensembles db model issue (Some (upper c)) = Inr df)
            \<and> (\<forall>c\<in>set (requested countries).
                  df_empty (get_eq_consumption db issue (Some (lower c))))"
    then obtain dfs where dfs: "fetch_renewables db model issue cs = Inr dfs"
      and ts: "\<forall>df\<in>set dfs. ''utc_datetime'' \<in> set (columns df)"
      using fetch_renewables_ok [of cs db model issue] unfolding cs_def by blast
    from aggregate_renewables_ok [OF ts] obtain r where
      r: "aggregate_renewables None dfs = Inr r" by blast
    from a have c: "fetch_consumption db issue cs = []"
      unfolding cs_def by (simp add: fetch_consumption_all_empty)
    have "update_consumption db clock (eng\<lparr>current_model := Some model\<rparr>) model issue cs ren
            = (Inr EmptyBundle, eng\<lparr>current_model := Some model\<rparr>, [])" for ren
      by (simp add: update_consumption_def c)
    then show ?thesis
      using aggregate_renewables_table [OF _ r] by (auto simp: u dfs r split: option.splits)
  qed
qed


text \<open>
  C2. When the renewables fetch returns an empty table for every requested country, or
  the renewables fetches return and the consumption fetch returns an empty table for every
  requested country, update returns the empty bundle and raises nothing; the stored
  scenario bundle with its metadata, and the time of the last update, are unchanged and no
  file is written.
\<close>

theorem update_empty_sources:
  assumes "(\<forall>c\<in>set (requested countries).
              \<exists>df. get_renewable_ensembles db model issue (Some (upper c)) = Inr df \<and> df_empty df)
         \<or> ((\<forall>c\<in>set (requested countries).
                \<exists>df. get_renewable_ensembles db model issue (Some (upper c)) = Inr df)
            \<and> (\<forall>c\<in>set (requested countries).
                  df_empty (get_eq_consumption db issue (Some (lower c)))))"
  shows "fst (update db clock eng model issue countries) = Inr EmptyBundle
       \<and> scenarios (fst (snd (update db clock eng model issue countries))) = scenarios eng
       \<and> last_update (fst (snd (update db clock eng model issue countries))) = last_update eng
       \<and> snd (snd (update db clock eng model issue countries)) = []"
  by (simp add: update_aborts [OF assms])

theorem update_empty_sources_witness:
  "fst (update empty_db 2000 old_engine ''gfsens'' None None) = Inr EmptyBundle
   \<and> scenarios (fst (snd (update empty_db 2000 old_engine ''gfsens'' None None)))
       = scenarios old_engine
   \<and> get_renewable_ensembles no_consumption_db ''eceps'' None (Some ''FR'')
       = Inr \<lparr>columns = [''utc_datetime'', ''wind_ens_01'', ''solar_ens_01'', ''total_ren_ens_01''],
               rows = [(0, [(''wind_ens_01'', Some 5), (''solar_ens_01'', Some 2),
                            (''total_ren_ens_01'', Some 7)])]\<rparr>
   \<and> fst (update no_consumption_db 2000 old_engine ''eceps'' None (Some [''fr'']))
       = Inr EmptyBundle
   \<and> scenarios (fst (snd (update no_consumption_db 2000 old_engine ''eceps'' None
                               (Some [''fr'']))))
       = scenarios old_engine"
proof -
  have r1: "requested None = [''FR'']" by code_simp
  have g1: "get_renewable_ensembles empty_db ''gfsens'' None (Some (upper ''FR'')) = Inr DataFrame0"
    by code_simp
  have e0: "df_empty DataFrame0" by code_simp
  have h1: "(\<forall>c\<in>set (requested None).
              \<exists>df. get_renewable_ensembles empty_db ''gfsens'' None (Some (upper c)) = Inr df
                   \<and> df_empty df)
         \<or> ((\<forall>c\<in>set (requested None).
                \<exists>df. get_renewable_ensembles empty_db ''gfsens'' None (Some (upper c)) = Inr df)
            \<and> (\<forall>c\<in>set (requested None).
                  df_empty (get_eq_consumption empty_db None (Some (lower c)))))"
    using g1 e0 by (simp add: r1)
  have r2: "requested (Some [''fr'']) = [''fr'']" by code_simp
  have g2: "get_renewable_ensembles no_consumption_db ''eceps'' None (Some (upper ''fr''))
       = Inr \<lparr>columns = [''utc_datetime'', ''wind_ens_01'', ''solar_ens_01'', ''total_ren_ens_01''],
               rows = [(0, [(''wind_ens_01'', Some 5), (''solar_ens_01'', Some 2),
                            (''total_ren_ens_01'', Some 7)])]\<rparr>"
    by code_simp
  have g2': "get_renewable_ensembles no_consumption_db ''eceps'' None (Some ''FR'')
       = Inr \<lparr>columns = [''utc_datetime'', ''wind_ens_01'', ''solar_ens_01'', ''total_ren_ens_01''],
               rows = [(0, [(''wind_ens_01'', Some 5), (''solar_ens_01'', Some 2),
                            (''total_ren_ens_01'', Some 7)])]\<rparr>"
    by code_simp
  have c2: "df_empty (get_eq_consumption no_consumption_db None (Some (lower ''fr'')))"
    by code_simp
  have h2: "(\<forall>c\<in>set (requested (Some [''fr''])).
              \<exists>df. get_renewable_ensembles no_consumption_db ''eceps'' None (Some (upper c)) = Inr df
                   \<and> df_empty df)
         \<or> ((\<forall>c\<in>set (requested (Some [''fr''])).
                \<exists>df. get_renewable_ensembles no_consumption_db ''eceps'' None (Some (upper c))
                       = Inr df)
            \<and> (\<forall>c\<in>set (requested (Some [''fr''])).
                  df_empty (get_eq_consumption no_consumption_db None (Some (lower c)))))"
    using g2 c2 by (simp add: r2)
  from update_empty_sources [OF h1, of 2000 old_engine]
       update_empty_sources [OF h2, of 2000 old_engine] g2'
  show ?thesis by simp
qed

text \<open>
  C9. After such an aborted update the engine's current_model is the requested model while
  the stored bundle is the old one: when the old bundle's metadata names another model, the
  two disagree.
\<close>

theorem failed_update_sets_current_model:
  assumes "(\<forall>c\<in>set (requested countries).
              \<exists>df. get_renewable_ensembles db model issue (Some (upper c)) = Inr df \<and> df_empty df)
         \<or> ((\<forall>c\<in>set (requested countries).
                \<exists>df. get_renewable_ensembles db model issue (Some (upper c)) = Inr df)
            \<and> (\<forall>c\<in>set (requested countries).
                  df_empty (get_eq_consumption db issue (Some (lower c)))))"
  shows "current_model (fst (snd (update db clock eng model issue countries))) = Some model
       \<and> scenarios (fst (snd (update db clock eng model issue countries))) = scenarios eng
       \<and> (\<forall>res cons ren md. scenarios eng = Bundle res cons ren md \<and> md_model md \<noteq> model \<longrightarrow>
            current_model (fst (snd (update db clock eng model issue countries)))
              \<noteq> Some (md_model (b_metadata (scenarios
                    (fst (snd (update db clock eng model issue countries)))))))"
  by (auto simp: update_aborts [OF assms])

theorem failed_update_sets_current_model_witness:
  "current_model old_engine = Some ''eceps''
   \<and> current_model (fst (snd (update empty_db 2000 old_engine ''gfsens'' None None)))
       = Some ''gfsens''
   \<and> md_model (b_metadata (scenarios
        (fst (snd (update empty_db 2000 old_engine ''gfsens'' None None))))) = ''eceps''"
proof -
  have r1: "requested None = [''FR'']" by code_simp
  have g1: "get_renewable_ensembles empty_db ''gfsens'' None (Some (upper ''FR'')) = Inr DataFrame0"
    by code_simp
  have e0: "df_empty DataFrame0" by code_simp
  have h1: "(\<forall>c\<in>set (requested None).
              \<exists>df. get_renewable_ensembles empty_db ''gfsens'' None (Some (upper c)) = Inr df
                   \<and> df_empty df)
         \<or> ((\<forall>c\<in>set (requested None).
                \<exists>df. get_renewable_ensembles empty_db ''gfsens'' None (Some (upper c)) = Inr df)
            \<and> (\<forall>c\<in>set (requested None).
                  df_empty (get_eq_consumption empty_db None (Some (lower c)))))"
    using g1 e0 by (simp add: r1)
  have o: "current_model old_engine = Some ''eceps''"
    "md_model (b_metadata (scenarios old_engine)) = ''eceps''"
    by (simp_all add: old_engine_def)
  from failed_update_sets_current_model [OF h1, of 2000 old_engine] o
  show ?thesis by simp
qed

section \<open>One row per timestamp\<close>

text \<open>
  The row bound of the inner join rests on tables with one row per timestamp. The two
  tables that \<open>update\<close> hands to _compute_residual_scenarios have this form: the
  consumption is grouped by timestamp, and the renewables are pivots indexed by timestamp,
  joined and added on that index.
\<close>

lemma distinct_keys_sort_key:
  "distinct (map fst (sort_key fst xs)) = distinct (map fst xs)"
  by (simp add: distinct_map)

lemma pivot_table_distinct: "pivot_table lr = Inr p \<Longrightarrow> distinct (timestamps p)"
  by (auto simp: pivot_table_def Let_def timestamps_def comp_def split: if_splits)

lemma timestamps_rename_columns: "timestamps (rename_columns f df) = timestamps df"
  by (simp add: rename_columns_def timestamps_def comp_def)

lemma timestamps_assign: "timestamps (assign df c f) = timestamps df"
  by (simp add: assign_def timestamps_def comp_def)

lemma timestamps_fillna_zero: "timestamps (fillna_zero df) = timestamps df"
  by (simp add: fillna_zero_def timestamps_def comp_def)

lemma timestamps_add_totals: "timestamps (add_totals n df) = timestamps df"
proof -
  have "timestamps (foldl (\<lambda>d i.
            if wind_col i \<in> set (columns d) \<and> solar_col i \<in> set (columns d)
            then assign d (ren_col i) (\<lambda>r. fadd (cell r (wind_col i)) (cell r (solar_col i)))
            else d) d xs) = timestamps d" for d xs
    by (induction xs arbitrary: d) (simp_all add: timestamps_assign)
  then show ?thesis unfolding add_totals_def by blast
qed

lemma get_ensemble_forecasts_distinct:
  assumes "get_ensemble_forecasts db model element issue location = Inr df"
  shows "distinct (timestamps df)"
proof -
  from assms have "df = DataFrame0
      \<or> (\<exists>p lr. pivot_table lr = Inr p \<and> df = sort_values (rename_columns ens_label p))"
    by (auto simp: get_ensemble_forecasts_def Let_def
          split: option.splits qres.splits if_splits sum.splits)
  then show ?thesis
  proof (elim disjE exE conjE)
    assume "df = DataFrame0" then show ?thesis by (simp add: DataFrame0_def timestamps_def)
  next
    fix p lr assume p: "pivot_table lr = Inr p" and df: "df = sort_values (rename_columns ens_label p)"
    have "distinct (map fst (rows (rename_columns ens_label p)))"
      using pivot_table_distinct [OF p] timestamps_rename_columns [of ens_label p]
      by (simp add: timestamps_def)
    then show ?thesis unfolding df by (simp add: sort_values_def timestamps_def distinct_keys_sort_key)
  qed
qed

lemma filter_key_single:
  "distinct (map fst l) \<Longrightarrow> k \<in> fst ` set l \<Longrightarrow> \<exists>a. filter (\<lambda>x. fst x = k) l = [a]"
proof (induction l)
  case Nil
  then show ?case by simp
next
  case (Cons x l)
  show ?case
  proof (cases "fst x = k")
    case True
    with Cons.prems have "filter (\<lambda>x. fst x = k) l = []"
      by (auto simp: filter_empty_conv image_iff)
    with True show ?thesis by simp
  next
    case False
    with Cons show ?thesis by auto
  qed
qed

lemma outer_group_keys:
  assumes "distinct (map fst l)" and "distinct (map fst r)" and "k \<in> fst ` set l \<union> fst ` set r"
  shows "map fst (outer_group k l r) = [k]"
proof (cases "k \<in> fst ` set r")
  case kr: True
  from filter_key_single [OF assms(2) kr] obtain b where b: "filter (\<lambda>x. fst x = k) r = [b]" by blast
  show ?thesis
  proof (cases "k \<in> fst ` set l")
    case True
    from filter_key_single [OF assms(1) True] obtain a where "filter (\<lambda>x. fst x = k) l = [a]" by blast
    with b show ?thesis by (simp add: outer_group_def)
  next
    case False
    then have "filter (\<lambda>x. fst x = k) l = []" by (auto simp: filter_empty_conv)
    with b show ?thesis by (simp add: outer_group_def)
  qed
next
  case False
  then have r0: "filter (\<lambda>x. fst x = k) r = []" by (auto simp: filter_empty_conv)
  from False assms(3) have "k \<in> fst ` set l" by blast
  from filter_key_single [OF assms(1) this] obtain a where "filter (\<lambda>x. fst x = k) l = [a]" by blast
  with r0 show ?thesis by (simp add: outer_group_def)
qed

lemma outer_join_keys:
  assumes "distinct (map fst l)" and "distinct (map fst r)"
  shows "map fst (outer_join l r) = sort (remdups (map fst l @ map fst r))"
proof -
  have "map fst (concat (map (\<lambda>k. outer_group k l r) ks)) = ks"
    if "set ks \<subseteq> fst ` set l \<union> fst ` set r" for ks
    using that
  proof (induction ks)
    case Nil
    then show ?case by simp
  next
    case (Cons k ks)
    then have "k \<in> fst ` set l \<union> fst ` set r" by simp
    from outer_group_keys [OF assms this] Cons show ?case by simp
  qed
  then show ?thesis unfolding outer_join_def by simp
qed

lemma merge_outer_distinct:
  assumes "distinct (timestamps l)" and "distinct (timestamps r)"
  shows "distinct (timestamps (merge_outer l r))"
proof -
  have "timestamps (merge_outer l r) = map fst (outer_join (rows l) (rows r))"
    by (simp add: merge_outer_def timestamps_def comp_def split_def)
  also have "\<dots> = sort (remdups (map fst (rows l) @ map fst (rows r)))"
    using assms by (intro outer_join_keys) (simp_all add: timestamps_def)
  finally show ?thesis by simp
qed

lemma get_renewable_ensembles_distinct:
  assumes "get_renewable_ensembles db model issue location = Inr df"
  shows "distinct (timestamps df)"
proof -
  from assms obtain wind solar where
    w: "get_ensemble_forecasts db model ''wind'' issue location = Inr wind"
    and s: "get_ensemble_forecasts db model ''solar'' issue location = Inr solar"
    by (auto simp: get_renewable_ensembles_def split: sum.splits)
  have d0: "distinct (timestamps DataFrame0)" by (simp add: DataFrame0_def timestamps_def)
  define wr where "wr = (if \<not> df_empty wind then rename_columns (\<lambda>c. ''wind_'' @ c) wind
                         else DataFrame0)"
  define sr where "sr = (if \<not> df_empty solar then rename_columns (\<lambda>c. ''solar_'' @ c) solar
                         else DataFrame0)"
  have dw: "distinct (timestamps wr)"
    using get_ensemble_forecasts_distinct [OF w] d0 by (simp add: wr_def timestamps_rename_columns)
  have ds: "distinct (timestamps sr)"
    using get_ensemble_forecasts_distinct [OF s] d0 by (simp add: sr_def timestamps_rename_columns)
  have "Inr df =
      (if df_empty wind \<and> df_empty solar then Inr DataFrame0
       else if df_empty wr then Inr sr
       else if df_empty sr then Inr wr
       else (case AVAILABLE_MODELS model of
               None \<Rightarrow> Inl KeyError
             | Some cfg \<Rightarrow> Inr (add_totals (n_members cfg) (fillna_zero (merge_outer wr sr)))))"
    using assms unfolding get_renewable_ensembles_def w s wr_def sr_def Let_def by simp
  then have "df = DataFrame0 \<or> df = sr \<or> df = wr
      \<or> (\<exists>n. df = add_totals n (fillna_zero (merge_outer wr sr)))"
    by (auto split: if_splits option.splits)
  then show ?thesis
    using d0 dw ds merge_outer_distinct [OF dw ds]
    by (auto simp: timestamps_add_totals timestamps_fillna_zero)
qed

lemma fetch_renewables_distinct:
  "fetch_renewables db model issue cs = Inr dfs \<Longrightarrow> \<forall>df\<in>set dfs. distinct (timestamps df)"
proof (induction cs arbitrary: dfs)
  case Nil
  then show ?case by simp
next
  case (Cons c cs)
  then show ?case
    by (auto split: sum.splits if_splits dest: get_renewable_ensembles_distinct)
qed

lemma df_add_distinct: "distinct (timestamps a) \<Longrightarrow> distinct (timestamps (df_add a b))"
  by (auto simp: df_add_def Let_def timestamps_def comp_def)

lemma set_index_timestamps: "set_index df = Inr d \<Longrightarrow> timestamps d = timestamps df"
  by (auto simp: set_index_def timestamps_def split: if_splits)

lemma aggregate_renewables_distinct:
  assumes "aggregate_renewables acc dfs = Inr (Some agg)"
    and "\<forall>df\<in>set dfs. distinct (timestamps df)"
    and "\<forall>a. acc = Some a \<longrightarrow> distinct (timestamps a)"
  shows "distinct (timestamps agg)"
  using assms
proof (induction dfs arbitrary: acc)
  case Nil
  then show ?case by simp
next
  case (Cons df dfs)
  from Cons.prems(1) obtain d where d: "set_index df = Inr d"
    and rest: "aggregate_renewables
                 (Some (case acc of None \<Rightarrow> d | Some a \<Rightarrow> df_add a d)) dfs = Inr (Some agg)"
    by (auto split: sum.splits)
  have dd: "distinct (timestamps d)" using set_index_timestamps [OF d] Cons.prems(2) by simp
  have "distinct (timestamps (case acc of None \<Rightarrow> d | Some a \<Rightarrow> df_add a d))"
    using dd Cons.prems(3) by (auto split: option.splits intro: df_add_distinct)
  with Cons.IH [OF rest] Cons.prems(2) show ?case by simp
qed

lemma sum_consumption_distinct: "distinct (timestamps (sum_consumption cons_list))"
  by (simp add: sum_consumption_def Let_def timestamps_def comp_def)

lemma update_residual_inputs_distinct:
  assumes "fetch_renewables db model issue cs = Inr ren_list"
    and "aggregate_renewables None ren_list = Inr (Some ren_agg)"
  shows "distinct (timestamps (sum_consumption (fetch_consumption db issue cs)))
       \<and> distinct (timestamps (reset_index ren_agg))"
proof -
  have "distinct (timestamps ren_agg)"
    using aggregate_renewables_distinct [OF assms(2) fetch_renewables_distinct [OF assms(1)]]
    by simp
  then have "distinct (timestamps (reset_index ren_agg))"
    by (simp add: reset_index_def timestamps_def)
  with sum_consumption_distinct show ?thesis by blast
qed

end
